theory Spec2Isabelle
  imports Complex_Main "HOL-Library.Sublist"
begin

section \<open>Go strings and the library functions the program calls\<close>

text \<open>
  A Go string is a sequence of bytes and \<open>len\<close> counts bytes, so a Go string is a
  \<^typ>\<open>string\<close> (a list of 8-bit characters) and \<open>len\<close> is \<^const>\<open>length\<close>. Text that is
  not ASCII appears as its UTF-8 bytes, as it does in the compiled program.
\<close>

definition HasPrefix :: "string \<Rightarrow> string \<Rightarrow> bool" where
  "HasPrefix s p = prefix p s"

definition TrimPrefix :: "string \<Rightarrow> string \<Rightarrow> string" where
  "TrimPrefix s p = (if prefix p s then drop (length p) s else s)"

fun Join_strings :: "string list \<Rightarrow> string \<Rightarrow> string" where
  "Join_strings [] sep = []"
| "Join_strings [x] sep = x"
| "Join_strings (x # y # ys) sep = x @ sep @ Join_strings (y # ys) sep"

subsection \<open>strings.TrimSpace\<close>

text \<open>
  \<open>strings.TrimSpace\<close> removes the leading and the trailing runes for which
  \<open>unicode.IsSpace\<close> holds. On the UTF-8 bytes these runes are the six ASCII spaces and the
  encodings of U+0085, U+00A0, U+1680, U+2000 to U+200A, U+2028, U+2029, U+202F, U+205F and
  U+3000.
\<close>

definition spaceRunes :: "string list" where
  "spaceRunes =
    [[CHR 0x09], [CHR 0x0A], [CHR 0x0B], [CHR 0x0C], [CHR 0x0D], [CHR 0x20],
     [CHR 0xC2, CHR 0x85], [CHR 0xC2, CHR 0xA0], [CHR 0xE1, CHR 0x9A, CHR 0x80],
     [CHR 0xE2, CHR 0x80, CHR 0x80], [CHR 0xE2, CHR 0x80, CHR 0x81],
     [CHR 0xE2, CHR 0x80, CHR 0x82], [CHR 0xE2, CHR 0x80, CHR 0x83],
     [CHR 0xE2, CHR 0x80, CHR 0x84], [CHR 0xE2, CHR 0x80, CHR 0x85],
     [CHR 0xE2, CHR 0x80, CHR 0x86], [CHR 0xE2, CHR 0x80, CHR 0x87],
     [CHR 0xE2, CHR 0x80, CHR 0x88], [CHR 0xE2, CHR 0x80, CHR 0x89],
     [CHR 0xE2, CHR 0x80, CHR 0x8A], [CHR 0xE2, CHR 0x80, CHR 0xA8],
     [CHR 0xE2, CHR 0x80, CHR 0xA9], [CHR 0xE2, CHR 0x80, CHR 0xAF],
     [CHR 0xE2, CHR 0x81, CHR 0x9F], [CHR 0xE3, CHR 0x80, CHR 0x80]]"

definition leadingSpace :: "string \<Rightarrow> nat" where
  "leadingSpace s = (case find (\<lambda>p. prefix p s) spaceRunes of None \<Rightarrow> 0 | Some p \<Rightarrow> length p)"

definition trailingSpace :: "string \<Rightarrow> nat" where
  "trailingSpace s = (case find (\<lambda>p. suffix p s) spaceRunes of None \<Rightarrow> 0 | Some p \<Rightarrow> length p)"

function TrimLeftSpace :: "string \<Rightarrow> string" where
  "TrimLeftSpace s =
     (if leadingSpace s = 0 then s else TrimLeftSpace (drop (leadingSpace s) s))"
  by pat_completeness auto
termination
proof (relation "measure length")
  show "wf (measure length)" by simp
next
  fix s :: string
  assume "leadingSpace s \<noteq> 0"
  moreover have "leadingSpace s \<le> length s"
    by (auto simp: leadingSpace_def find_Some_iff prefix_def split: option.splits)
  ultimately show "(drop (leadingSpace s) s, s) \<in> measure length"
    by simp
qed

function TrimRightSpace :: "string \<Rightarrow> string" where
  "TrimRightSpace s =
     (if trailingSpace s = 0 then s else TrimRightSpace (take (length s - trailingSpace s) s))"
  by pat_completeness auto
termination
proof (relation "measure length")
  show "wf (measure length)" by simp
next
  fix s :: string
  assume "trailingSpace s \<noteq> 0"
  moreover have "trailingSpace s \<le> length s"
    by (auto simp: trailingSpace_def find_Some_iff suffix_def split: option.splits)
  ultimately show "(take (length s - trailingSpace s) s, s) \<in> measure length"
    by simp
qed

declare TrimLeftSpace.simps [simp del] TrimRightSpace.simps [simp del]

definition TrimSpace :: "string \<Rightarrow> string" where
  "TrimSpace s = TrimRightSpace (TrimLeftSpace s)"

subsection \<open>path/filepath on a system whose separator is the slash\<close>

text \<open>
  \<open>filepath.Clean\<close>, \<open>filepath.Join\<close> and \<open>filepath.Dir\<close> belong to the Go standard
  library. They are purely lexical; the model follows their documented rules element by
  element: empty elements and \<open>.\<close> are dropped, \<open>..\<close> removes the element before it,
  a \<open>..\<close> that would climb above the root is dropped, a leading run of \<open>..\<close> of a
  relative path is kept, and the empty result is \<open>.\<close>.
\<close>

fun split_slash :: "string \<Rightarrow> string list" where
  "split_slash [] = [[]]"
| "split_slash (c # cs) =
     (if c = CHR ''/'' then [] # split_slash cs
      else (case split_slash cs of [] \<Rightarrow> [[c]] | e # es \<Rightarrow> (c # e) # es))"

definition cleanElem :: "bool \<Rightarrow> string list \<Rightarrow> string \<Rightarrow> string list" where
  "cleanElem rooted out e =
     (if e = [] \<or> e = ''.'' then out
      else if e = ''..'' then
        (if out \<noteq> [] \<and> last out \<noteq> ''..'' then butlast out
         else if rooted then out
         else out @ [''..''])
      else out @ [e])"

definition Clean :: "string \<Rightarrow> string" where
  "Clean path =
     (if path = [] then ''.''
      else
        let rooted = (hd path = CHR ''/'');
            out = foldl (cleanElem rooted) [] (split_slash path)
        in if rooted then CHR ''/'' # Join_strings out ''/''
           else if out = [] then ''.''
           else Join_strings out ''/'')"

definition Join :: "string list \<Rightarrow> string" where
  "Join elem =
     (case dropWhile (\<lambda>e. e = []) elem of
        [] \<Rightarrow> []
      | es \<Rightarrow> Clean (Join_strings es ''/''))"

definition Dir :: "string \<Rightarrow> string" where
  "Dir path = Clean (rev (dropWhile (\<lambda>c. c \<noteq> CHR ''/'') (rev path)))"

subsection \<open>The first run of decimal digits of a string\<close>

definition isDigit :: "char \<Rightarrow> bool" where
  "isDigit c = (48 \<le> (of_char c :: nat) \<and> (of_char c :: nat) \<le> 57)"

definition digitsVal :: "string \<Rightarrow> int" where
  "digitsVal ds = foldl (\<lambda>a c. 10 * a + (int (of_char c) - 48)) 0 ds"

text \<open>The regular expression \<open>\d+\<close>: the leftmost longest run of ASCII digits, if any.\<close>

definition firstDigits :: "string \<Rightarrow> string option" where
  "firstDigits s =
     (let r = takeWhile isDigit (dropWhile (\<lambda>c. \<not> isDigit c) s)
      in if r = [] then None else Some r)"

section \<open>Decimals\<close>

text \<open>
  A \<open>decimal.Decimal\<close> of the decimal library the program depends on is an arbitrary
  precision integer and a 32-bit exponent, denoting \<open>value * 10 ^ exp\<close>.
\<close>

record Decimal =
  dec_value :: int
  dec_exp :: int

definition Zero :: Decimal where
  "Zero = \<lparr>dec_value = 0, dec_exp = 1\<rparr>"

definition NewFromInt :: "int \<Rightarrow> Decimal" where
  "NewFromInt n = \<lparr>dec_value = n, dec_exp = 0\<rparr>"

definition dec_rat :: "Decimal \<Rightarrow> rat" where
  "dec_rat d =
     (if 0 \<le> dec_exp d then of_int (dec_value d) * 10 ^ nat (dec_exp d)
      else of_int (dec_value d) / 10 ^ nat (- dec_exp d))"

definition GreaterThan :: "Decimal \<Rightarrow> Decimal \<Rightarrow> bool" where
  "GreaterThan a b = (dec_rat b < dec_rat a)"

text \<open>
  \<open>Mul\<close> multiplies the integers and adds the exponents. The library panics when the sum
  of the exponents leaves the 32-bit range; the program only multiplies by
  \<open>NewFromInt 100\<close>, whose exponent is 0.
\<close>

definition Mul :: "Decimal \<Rightarrow> Decimal \<Rightarrow> Decimal" where
  "Mul a b = \<lparr>dec_value = dec_value a * dec_value b, dec_exp = dec_exp a + dec_exp b\<rparr>"

text \<open>Conversion of an integer to \<open>int64\<close>: the low 64 bits, read as a signed number.\<close>

definition int64 :: "int \<Rightarrow> int" where
  "int64 x = (x + 2 ^ 63) mod 2 ^ 64 - 2 ^ 63"

text \<open>Division that truncates towards zero (\<open>big.Int.Quo\<close>).\<close>

definition quo :: "int \<Rightarrow> int \<Rightarrow> int" where
  "quo a b = sgn a * sgn b * (\<bar>a\<bar> div \<bar>b\<bar>)"

definition IntPart :: "Decimal \<Rightarrow> int" where
  "IntPart d =
     int64 (if 0 \<le> dec_exp d then dec_value d * 10 ^ nat (dec_exp d)
            else quo (dec_value d) (10 ^ nat (- dec_exp d)))"

text \<open>
  \<open>strconv.ParseInt\<close> in base 10 and \<open>big.Int.SetString\<close> in base 10 accept an optional
  sign followed by at least one digit.
\<close>

definition parseInteger :: "string \<Rightarrow> int option" where
  "parseInteger s =
     (let neg = (s \<noteq> [] \<and> hd s = CHR ''-'');
          ds = (if s \<noteq> [] \<and> (hd s = CHR ''-'' \<or> hd s = CHR ''+'') then tl s else s)
      in if ds = [] \<or> \<not> list_all isDigit ds then None
         else Some (if neg then - digitsVal ds else digitsVal ds))"

definition inInt32 :: "int \<Rightarrow> bool" where
  "inInt32 x = (- (2 ^ 31) \<le> x \<and> x \<le> 2 ^ 31 - 1)"

text \<open>
  \<open>decimal.NewFromString\<close> of the decimal library (version 1.3.1 in the module file): an
  optional exponent after the first \<open>E\<close> or \<open>e\<close>, at most one decimal point, and the
  remaining characters an optionally signed run of digits. \<open>None\<close> is the returned error.
\<close>

definition NewFromString :: "string \<Rightarrow> Decimal option" where
  "NewFromString str =
     (let isE = (\<lambda>c. c = CHR ''E'' \<or> c = CHR ''e'');
          val = takeWhile (\<lambda>c. \<not> isE c) str;
          rest = dropWhile (\<lambda>c. \<not> isE c) str;
          exp0 = (if rest = [] then Some 0
                  else (case parseInteger (tl rest) of
                          None \<Rightarrow> None
                        | Some x \<Rightarrow> if inInt32 x then Some x else None))
      in case exp0 of
           None \<Rightarrow> None
         | Some e0 \<Rightarrow>
             if 1 < length (filter (\<lambda>c. c = CHR ''.'') val) then None
             else
               let ip = takeWhile (\<lambda>c. c \<noteq> CHR ''.'') val;
                   fp = tl (dropWhile (\<lambda>c. c \<noteq> CHR ''.'') val);
                   intString = ip @ fp;
                   e = e0 - int (length fp)
               in (case parseInteger intString of
                     None \<Rightarrow> None
                   | Some v \<Rightarrow>
                       if inInt32 e then Some \<lparr>dec_value = v, dec_exp = e\<rparr> else None))"

section \<open>The document model (internal/models)\<close>

record Address =
  PostalCode :: string
  RegionCode :: string
  Region :: string
  City :: string
  Street :: string
  House :: string
  Apartment :: string

record InvoiceItem =
  item_LineNumber :: int
  item_Name :: string
  item_UnitCode :: string
  item_UnitName :: string
  item_Quantity :: Decimal
  item_Price :: Decimal
  item_AmountWithoutVAT :: Decimal
  item_VATRate :: string
  item_VATAmount :: Decimal
  item_AmountWithVAT :: Decimal
  item_Article :: string

record Organization =
  org_Name :: string
  org_INN :: string
  org_KPP :: string
  org_Address :: "Address option"

text \<open>Instants of \<open>time.Time\<close> are kept abstract as integers.\<close>

type_synonym time = int

record UPDContent =
  InvoiceNumber :: string
  InvoiceDate :: time
  Seller :: Organization
  Buyer :: Organization
  Items :: "InvoiceItem list"
  CurrencyCode :: string
  TotalWithoutVAT :: Decimal
  TotalVAT :: Decimal
  TotalWithVAT :: Decimal
  RequisiteNumber :: string

definition NewUPDContent :: "string \<Rightarrow> time \<Rightarrow> Organization \<Rightarrow> Organization \<Rightarrow> UPDContent" where
  "NewUPDContent invoiceNumber invoiceDate seller buyer =
     \<lparr>InvoiceNumber = invoiceNumber,
      InvoiceDate = invoiceDate,
      Seller = seller,
      Buyer = buyer,
      Items = [],
      CurrencyCode = ''643'',
      TotalWithoutVAT = Zero,
      TotalVAT = Zero,
      TotalWithVAT = Zero,
      RequisiteNumber = []\<rparr>"

section \<open>The parser (internal/parser)\<close>

subsection \<open>Fixed texts\<close>

text \<open>The Cyrillic literals of the source, as the UTF-8 bytes the compiler stores.\<close>

definition ne_ukazan :: string where
  "ne_ukazan =
     [CHR 0xD0, CHR 0x9D, CHR 0xD0, CHR 0xB5, CHR 0x20, CHR 0xD1, CHR 0x83, CHR 0xD0, CHR 0xBA,
      CHR 0xD0, CHR 0xB0, CHR 0xD0, CHR 0xB7, CHR 0xD0, CHR 0xB0, CHR 0xD0, CHR 0xBD]"

definition ne_ukazano :: string where
  "ne_ukazano = ne_ukazan @ [CHR 0xD0, CHR 0xBE]"

subsection \<open>What \<open>xml.Unmarshal\<close> fills in\<close>

record XMLLegalEntity =
  le_Name :: string
  le_INN :: string
  le_KPP :: string

record XMLIndividual =
  ind_INN :: string
  fio_Surname :: string
  fio_Name :: string
  fio_Patronymic :: string

record XMLParty =
  LegalEntity :: XMLLegalEntity
  Individual :: XMLIndividual

record XMLItem =
  xml_Name :: string
  xml_Quantity :: string
  xml_Price :: string
  xml_AmountWithoutVAT :: string
  xml_VATRate :: string
  xml_AmountWithVAT :: string
  xml_Article :: string
  xml_VATSum :: string

record UPDXML =
  xml_Version :: string
  xml_Number :: string
  xml_Date :: string
  SellerInfo :: XMLParty
  BuyerInfo :: XMLParty
  TableItems :: "XMLItem list"
  xml_TotalWithoutVAT :: string
  xml_TotalWithVAT :: string
  xml_TotalVATSum :: string
  xml_RequisiteNumber :: string

text \<open>
  The surroundings of the parser: the clock, \<open>xml.Unmarshal\<close> into the structure above
  (\<open>None\<close> when it returns an error) and \<open>time.Parse\<close> with the layout \<open>02.01.2006\<close>
  (\<open>None\<close> when it returns an error).
\<close>

record parser_env =
  Now :: time
  Unmarshal :: "string \<Rightarrow> UPDXML option"
  ParseDate :: "string \<Rightarrow> time option"

text \<open>
  A file as the parser sees it: absent, present but failing to open or to read, or readable,
  with the text that \<open>readFileWithEncoding\<close> returns (the Windows-1251 decoder is total).
\<close>

datatype file_state = Missing | Unreadable | Readable string

datatype parse_error = MainFileNotFound string | FailedToReadUPD

subsection \<open>parseDecimal, parseOrganization, parseInvoiceItems\<close>

definition parseDecimal :: "string \<Rightarrow> Decimal" where
  "parseDecimal s =
     (if s = [] then Zero
      else (case NewFromString s of Some d \<Rightarrow> d | None \<Rightarrow> Zero))"

definition parseOrganization ::
  "string \<Rightarrow> string \<Rightarrow> string \<Rightarrow> string \<Rightarrow> string \<Rightarrow> string \<Rightarrow> string \<Rightarrow> Organization" where
  "parseOrganization legalName legalINN legalKPP individualINN surname name patronymic =
     (if legalINN \<noteq> [] then
        \<lparr>org_Name = legalName, org_INN = legalINN, org_KPP = legalKPP, org_Address = None\<rparr>
      else if individualINN \<noteq> [] then
        (let fullName0 = TrimSpace (surname @ '' '' @ name @ '' '' @ patronymic);
             fullName = (if fullName0 = [] then ne_ukazano else fullName0)
         in \<lparr>org_Name = fullName, org_INN = individualINN, org_KPP = [], org_Address = None\<rparr>)
      else
        \<lparr>org_Name = ne_ukazano, org_INN = ''0000000000'', org_KPP = [], org_Address = None\<rparr>)"

definition parseParty :: "XMLParty \<Rightarrow> Organization" where
  "parseParty p =
     parseOrganization (le_Name (LegalEntity p)) (le_INN (LegalEntity p)) (le_KPP (LegalEntity p))
       (ind_INN (Individual p)) (fio_Surname (Individual p)) (fio_Name (Individual p))
       (fio_Patronymic (Individual p))"

definition parseInvoiceItem :: "nat \<Rightarrow> XMLItem \<Rightarrow> InvoiceItem" where
  "parseInvoiceItem i xmlItem =
     \<lparr>item_LineNumber = int i + 1,
      item_Name = xml_Name xmlItem,
      item_UnitCode = [],
      item_UnitName = [],
      item_Quantity = parseDecimal (xml_Quantity xmlItem),
      item_Price = parseDecimal (xml_Price xmlItem),
      item_AmountWithoutVAT = parseDecimal (xml_AmountWithVAT xmlItem),
      item_VATRate = xml_VATRate xmlItem,
      item_VATAmount = parseDecimal (xml_VATSum xmlItem),
      item_AmountWithVAT = parseDecimal (xml_AmountWithVAT xmlItem),
      item_Article = xml_Article xmlItem\<rparr>"

definition parseInvoiceItems :: "XMLItem list \<Rightarrow> InvoiceItem list" where
  "parseInvoiceItems xmlItems = map (\<lambda>(i, x). parseInvoiceItem i x) (enumerate 0 xmlItems)"

subsection \<open>createBasicUPDContent, parseFullUPDContent, parseUPDContent\<close>

definition createBasicUPDContent :: "parser_env \<Rightarrow> UPDContent" where
  "createBasicUPDContent env =
     NewUPDContent ne_ukazan (Now env)
       \<lparr>org_Name = ne_ukazano, org_INN = ''0000000000'', org_KPP = [], org_Address = None\<rparr>
       \<lparr>org_Name = ne_ukazano, org_INN = ''0000000000'', org_KPP = [], org_Address = None\<rparr>"

definition parseFullUPDContent :: "parser_env \<Rightarrow> string \<Rightarrow> parse_error + UPDContent" where
  "parseFullUPDContent env content =
     (case Unmarshal env content of
        None \<Rightarrow> Inr (createBasicUPDContent env)
      | Some upd \<Rightarrow>
          let invoiceNumber = (if xml_Number upd = [] then ne_ukazan else xml_Number upd);
              invoiceDate =
                (if xml_Date upd \<noteq> [] then
                   (case ParseDate env (xml_Date upd) of Some d \<Rightarrow> d | None \<Rightarrow> Now env)
                 else Now env);
              seller = parseParty (SellerInfo upd);
              buyer = parseParty (BuyerInfo upd);
              items = parseInvoiceItems (TableItems upd);
              totalWithoutVAT = parseDecimal (xml_TotalWithoutVAT upd);
              totalWithVAT = parseDecimal (xml_TotalWithVAT upd);
              totalVAT = parseDecimal (xml_TotalVATSum upd);
              requisiteNumber =
                (if xml_RequisiteNumber upd \<noteq> [] then
                   (case firstDigits (xml_RequisiteNumber upd) of Some n \<Rightarrow> n | None \<Rightarrow> [])
                 else [])
          in Inr ((NewUPDContent invoiceNumber invoiceDate seller buyer)
                    \<lparr>Items := items,
                     TotalWithoutVAT := totalWithoutVAT,
                     TotalVAT := totalVAT,
                     TotalWithVAT := totalWithVAT,
                     RequisiteNumber := requisiteNumber\<rparr>))"

definition parseUPDContent ::
  "parser_env \<Rightarrow> (string \<Rightarrow> file_state) \<Rightarrow> string \<Rightarrow> string \<Rightarrow> parse_error + UPDContent" where
  "parseUPDContent env fs extractDir mainDocumentPath =
     (let fullUPDPath = Join [extractDir, mainDocumentPath]
      in case fs fullUPDPath of
           Missing \<Rightarrow> Inl (MainFileNotFound mainDocumentPath)
         | Unreadable \<Rightarrow> Inl FailedToReadUPD
         | Readable content \<Rightarrow>
             if length (TrimSpace content) \<le> 100 then Inr (createBasicUPDContent env)
             else parseFullUPDContent env content)"

subsection \<open>extractArchive\<close>

text \<open>
  An entry of the archive, the operations on the file system that can fail, and what an
  extraction leaves on the disk. Whether an operation succeeds is decided by the
  surroundings (\<open>ok\<close>). A failed copy leaves the created file with an unknown part of the data.
\<close>

record zip_file =
  file_Name :: string
  file_IsDir :: bool
  file_Data :: string

datatype io_op = OpMkdirAll string | OpOpenEntry string | OpOpenFile string | OpCopy string

datatype fs_effect = DirCreated string | FileCreated string | DataWritten string string

datatype extract_error =
  InvalidZIP | ExtractDirFailed | InvalidFilePath string | IOFailure io_op

text \<open>One round of the loop over the entries: \<open>Inl\<close> returns, \<open>Inr\<close> goes on.\<close>

definition extractFile ::
  "(io_op \<Rightarrow> bool) \<Rightarrow> string \<Rightarrow> zip_file \<Rightarrow> fs_effect list
     \<Rightarrow> (extract_error + unit) \<times> fs_effect list" where
  "extractFile ok extractDir file eff =
     (let path = Join [extractDir, file_Name file]
      in if \<not> HasPrefix path (Clean extractDir @ ''/'') then
           (Inl (InvalidFilePath (file_Name file)), eff)
         else if file_IsDir file then
           (Inr (), if ok (OpMkdirAll path) then eff @ [DirCreated path] else eff)
         else if \<not> ok (OpMkdirAll (Dir path)) then
           (Inl (IOFailure (OpMkdirAll (Dir path))), eff)
         else if \<not> ok (OpOpenEntry (file_Name file)) then
           (Inl (IOFailure (OpOpenEntry (file_Name file))), eff @ [DirCreated (Dir path)])
         else if \<not> ok (OpOpenFile path) then
           (Inl (IOFailure (OpOpenFile path)), eff @ [DirCreated (Dir path)])
         else if \<not> ok (OpCopy path) then
           (Inl (IOFailure (OpCopy path)), eff @ [DirCreated (Dir path), FileCreated path])
         else
           (Inr (),
            eff @ [DirCreated (Dir path), FileCreated path, DataWritten path (file_Data file)]))"

fun extractFiles ::
  "(io_op \<Rightarrow> bool) \<Rightarrow> string \<Rightarrow> zip_file list \<Rightarrow> fs_effect list
     \<Rightarrow> (extract_error + unit) \<times> fs_effect list" where
  "extractFiles ok extractDir [] eff = (Inr (), eff)"
| "extractFiles ok extractDir (file # files) eff =
     (case extractFile ok extractDir file eff of
        (Inl e, eff') \<Rightarrow> (Inl e, eff')
      | (Inr u, eff') \<Rightarrow> extractFiles ok extractDir files eff')"

text \<open>
  \<open>extractArchive\<close>: the archive is \<open>None\<close> when \<open>zip.OpenReader\<close> rejects it. The result
  is the error or the extraction directory, with what was left on the disk.
\<close>

definition extractArchive ::
  "(io_op \<Rightarrow> bool) \<Rightarrow> zip_file list option \<Rightarrow> string \<Rightarrow> (extract_error + string) \<times> fs_effect list" where
  "extractArchive ok archive zipPath =
     (let extractDir = Join [Dir zipPath, ''upd_extract'']
      in case archive of
           None \<Rightarrow> (Inl InvalidZIP, [])
         | Some files \<Rightarrow>
             if \<not> ok (OpMkdirAll extractDir) then (Inl ExtractDirFailed, [])
             else (case extractFiles ok extractDir files [DirCreated extractDir] of
                     (Inl e, eff) \<Rightarrow> (Inl e, eff)
                   | (Inr u, eff) \<Rightarrow> (Inr extractDir, eff)))"

text \<open>\<open>CleanupTempFiles\<close> removes the archive and this directory (\<open>os.RemoveAll\<close>).\<close>

definition CleanupTempFiles_extractDir :: "string \<Rightarrow> string" where
  "CleanupTempFiles_extractDir zipPath = Join [Dir zipPath, ''upd_extract'']"

section \<open>The client of the accounting system (internal/moysklad)\<close>

subsection \<open>JSON values, requests and responses\<close>

text \<open>
  A decoded JSON value (\<open>interface{}\<close>): \<open>nil\<close>, a boolean, a \<open>float64\<close> number (kept as
  the rational it denotes), a string, a slice or a \<open>map[string]interface{}\<close> (an association
  list with distinct keys).
\<close>

datatype json = JNull | JBool bool | JNum rat | JStr string | JArr "json list"
  | JObj "(string \<times> json) list"

type_synonym obj = "(string \<times> json) list"

text \<open>\<open>m[k]\<close> on a map is \<open>nil\<close> when the key is absent.\<close>

definition idx :: "obj \<Rightarrow> string \<Rightarrow> json" where
  "idx m k = (case map_of m k of Some v \<Rightarrow> v | None \<Rightarrow> JNull)"

text \<open>\<open>m[k] = v\<close> on a map.\<close>

definition setKey :: "string \<Rightarrow> json \<Rightarrow> obj \<Rightarrow> obj" where
  "setKey k v m =
     (if k \<in> set (map fst m) then map (\<lambda>(k', v'). if k' = k then (k', v) else (k', v')) m
      else m @ [(k, v)])"

text \<open>\<open>s, _ := v.(string)\<close> and \<open>x, _ := v.(float64)\<close>: the zero value when the type differs.\<close>

definition strOr :: "json \<Rightarrow> string" where
  "strOr v = (case v of JStr s \<Rightarrow> s | _ \<Rightarrow> [])"

definition numOr :: "json \<Rightarrow> rat" where
  "numOr v = (case v of JNum x \<Rightarrow> x | _ \<Rightarrow> 0)"

text \<open>
  The conversion \<open>int64(x)\<close> of a \<open>float64\<close> discards the fraction. (For a value outside the
  64-bit range Go leaves the result to the implementation; the model keeps the integer.)
\<close>

definition float_to_int64 :: "rat \<Rightarrow> int" where
  "float_to_int64 x = (if x < 0 then - \<lfloor>- x\<rfloor> else \<lfloor>x\<rfloor>)"

datatype http_method = GET | POST

record request =
  req_method :: http_method
  req_endpoint :: string
  req_data :: json
  req_params :: "(string \<times> string) list"

text \<open>
  A response: the status code, the body as \<open>json.Decoder\<close> reads it (\<open>None\<close> when it is not
  JSON) and the body as text.
\<close>

record response =
  StatusCode :: int
  BodyJSON :: "json option"
  BodyText :: string

text \<open>
  The client and its surroundings: the base URL, the external system, and \<open>time.Format\<close>
  with the layout of the moment field. The external system answers a request depending on
  all the requests it has received before; \<open>None\<close> is a failed request (\<open>err != nil\<close>).
\<close>

record API =
  baseURL :: string
  server :: "request list \<Rightarrow> request \<Rightarrow> response option"
  formatMoment :: "time \<Rightarrow> string"

text \<open>
  The outcome of a call: a panic (a failed unchecked type assertion), the returned error, or
  the returned value. Every function below also returns the requests made so far.
\<close>

datatype api_error =
    OrganizationNotFound
  | SupplierNotFound string
  | CounterpartySearchFailed
  | CounterpartyRequestFailed
  | CounterpartyDecodeFailed
  | CounterpartyCreationFailed int string
  | RequisiteNotProvided
  | InvoiceNotFound
  | CustomerInvoiceNotFound string
  | StoreMissing
  | StoreNotSpecified json
  | ProductsNotFound "string list"
  | NoServiceAvailable
  | DemandRequestFailed
  | DemandDecodeFailed
  | DemandCreationFailed int string
  | InvoiceRequestFailed
  | InvoiceDecodeFailed
  | InvoiceCreationFailed int string

datatype 'a result = Panic | Err api_error | Ok 'a

definition andThen ::
  "'a result \<times> request list \<Rightarrow> ('a \<Rightarrow> request list \<Rightarrow> 'b result \<times> request list)
     \<Rightarrow> 'b result \<times> request list" where
  "andThen m k =
     (case m of
        (Panic, log0) \<Rightarrow> (Panic, log0)
      | (Err e, log0) \<Rightarrow> (Err e, log0)
      | (Ok x, log0) \<Rightarrow> k x log0)"

definition makeRequest ::
  "API \<Rightarrow> http_method \<Rightarrow> string \<Rightarrow> json \<Rightarrow> (string \<times> string) list \<Rightarrow> request list
     \<Rightarrow> response option \<times> request list" where
  "makeRequest api method endpoint data params log0 =
     (let req = \<lparr>req_method = method, req_endpoint = endpoint, req_data = data,
                 req_params = params\<rparr>
      in (server api log0 req, log0 @ [req]))"

text \<open>
  \<open>json.NewDecoder(resp.Body).Decode(&data)\<close> into a \<open>map[string]interface{}\<close>: an object,
  or \<open>null\<close>, which leaves the map \<open>nil\<close> (a \<open>nil\<close> map reads as the empty map).
\<close>

definition decodeObject :: "response \<Rightarrow> obj option" where
  "decodeObject resp =
     (case BodyJSON resp of
        Some (JObj m) \<Rightarrow> Some m
      | Some JNull \<Rightarrow> Some []
      | _ \<Rightarrow> None)"

text \<open>
  The test every lookup repeats: the status is 200, the body decodes, \<open>rows\<close> is a slice and
  it is not empty; then the first row is taken.
\<close>

definition firstRow :: "response \<Rightarrow> json option" where
  "firstRow resp =
     (if StatusCode resp = 200 then
        (case decodeObject resp of
           Some data \<Rightarrow>
             (case idx data ''rows'' of
                JArr (row # rows) \<Rightarrow> Some row
              | _ \<Rightarrow> None)
         | None \<Rightarrow> None)
      else None)"

text \<open>\<open>m["meta"]["href"]\<close> when \<open>meta\<close> is a map and \<open>href\<close> a string.\<close>

definition hrefOf :: "obj \<Rightarrow> string option" where
  "hrefOf m =
     (case idx m ''meta'' of
        JObj meta \<Rightarrow> (case idx meta ''href'' of JStr href \<Rightarrow> Some href | _ \<Rightarrow> None)
      | _ \<Rightarrow> None)"

subsection \<open>findOrganizationByINN, getOrCreateCounterparty\<close>

definition findOrganizationByINN ::
  "API \<Rightarrow> string \<Rightarrow> request list \<Rightarrow> obj result \<times> request list" where
  "findOrganizationByINN api inn log0 =
     (case makeRequest api GET ''/entity/organization'' JNull [(''filter'', ''inn='' @ inn)] log0 of
        (None, log1) \<Rightarrow> (Err OrganizationNotFound, log1)
      | (Some resp, log1) \<Rightarrow>
          if StatusCode resp = 200 \<and> decodeObject resp = None then (Err OrganizationNotFound, log1)
          else
            (case firstRow resp of
               Some (JObj org) \<Rightarrow> (Ok org, log1)
             | Some _ \<Rightarrow> (Panic, log1)
             | None \<Rightarrow> (Err OrganizationNotFound, log1)))"

text \<open>The payload of the creation request for a buyer (the lines that build \<open>counterpartyData\<close>).\<close>

definition counterpartyData :: "Organization \<Rightarrow> obj" where
  "counterpartyData buyer =
     (let isIndividual = (length (org_INN buyer) = 12);
          data = [(''name'', JStr (org_Name buyer)), (''inn'', JStr (org_INN buyer)),
                  (''companyType'', JStr ''legal'')]
      in if isIndividual then setKey ''companyType'' (JStr ''individual'') data
         else if org_KPP buyer \<noteq> [] then setKey ''kpp'' (JStr (org_KPP buyer)) data
         else data)"

definition getOrCreateCounterparty ::
  "API \<Rightarrow> Organization \<Rightarrow> request list \<Rightarrow> obj result \<times> request list" where
  "getOrCreateCounterparty api buyer log0 =
     (case makeRequest api GET ''/entity/counterparty'' JNull
             [(''filter'', ''inn='' @ org_INN buyer)] log0 of
        (None, log1) \<Rightarrow> (Err CounterpartySearchFailed, log1)
      | (Some resp, log1) \<Rightarrow>
          (case firstRow resp of
             Some (JObj counterparty) \<Rightarrow> (Ok counterparty, log1)
           | Some _ \<Rightarrow> (Panic, log1)
           | None \<Rightarrow>
               (case makeRequest api POST ''/entity/counterparty'' (JObj (counterpartyData buyer))
                       [] log1 of
                  (None, log2) \<Rightarrow> (Err CounterpartyRequestFailed, log2)
                | (Some resp2, log2) \<Rightarrow>
                    if StatusCode resp2 = 200 then
                      (case decodeObject resp2 of
                         Some result \<Rightarrow> (Ok result, log2)
                       | None \<Rightarrow> (Err CounterpartyDecodeFailed, log2))
                    else
                      (Err (CounterpartyCreationFailed (StatusCode resp2) (BodyText resp2)),
                       log2))))"

subsection \<open>Products, services and the positions of the source invoice\<close>

definition findProduct ::
  "API \<Rightarrow> string \<Rightarrow> request list \<Rightarrow> obj option result \<times> request list" where
  "findProduct api productName log0 =
     (case makeRequest api GET ''/entity/product'' JNull
             [(''filter'', ''name='' @ productName)] log0 of
        (None, log1) \<Rightarrow> (Ok None, log1)
      | (Some resp, log1) \<Rightarrow>
          (case firstRow resp of
             Some (JObj product) \<Rightarrow> (Ok (Some product), log1)
           | Some _ \<Rightarrow> (Panic, log1)
           | None \<Rightarrow> (Ok None, log1)))"

definition findProductByArticle ::
  "API \<Rightarrow> string \<Rightarrow> request list \<Rightarrow> obj option result \<times> request list" where
  "findProductByArticle api article log0 =
     (case makeRequest api GET ''/entity/product'' JNull
             [(''filter'', ''article='' @ article)] log0 of
        (None, log1) \<Rightarrow> (Ok None, log1)
      | (Some resp, log1) \<Rightarrow>
          (case firstRow resp of
             Some (JObj product) \<Rightarrow> (Ok (Some product), log1)
           | Some _ \<Rightarrow> (Panic, log1)
           | None \<Rightarrow> (Ok None, log1)))"

definition getAnyAvailableService ::
  "API \<Rightarrow> request list \<Rightarrow> obj option result \<times> request list" where
  "getAnyAvailableService api log0 =
     (case makeRequest api GET ''/entity/service'' JNull [] log0 of
        (None, log1) \<Rightarrow> (Ok None, log1)
      | (Some resp, log1) \<Rightarrow>
          (case firstRow resp of
             Some (JObj service) \<Rightarrow> (Ok (Some service), log1)
           | Some _ \<Rightarrow> (Panic, log1)
           | None \<Rightarrow> (Ok None, log1)))"

text \<open>The map \<open>map[string]int64\<close> of prices, keyed by \<open>article:\<close> code and by \<open>name:\<close> name.\<close>

type_synonym prices = "string \<Rightarrow> int option"

definition parsePosition :: "json \<Rightarrow> prices \<Rightarrow> prices" where
  "parsePosition pos positions =
     (case pos of
        JObj position \<Rightarrow>
          (case idx position ''assortment'' of
             JObj assortment \<Rightarrow>
               (let productName = strOr (idx assortment ''name'');
                    productArticle = strOr (idx assortment ''article'');
                    price = numOr (idx position ''price'');
                    positions1 =
                      (if productArticle \<noteq> [] then
                         positions(''article:'' @ productArticle \<mapsto> float_to_int64 price)
                       else positions)
                in if productName \<noteq> [] then
                     positions1(''name:'' @ productName \<mapsto> float_to_int64 price)
                   else positions1)
           | _ \<Rightarrow> positions)
      | _ \<Rightarrow> positions)"

definition parsePositions :: "json list \<Rightarrow> prices \<Rightarrow> prices" where
  "parsePositions rows positions = foldl (\<lambda>m pos. parsePosition pos m) positions rows"

definition parseInvoicePositions ::
  "API \<Rightarrow> json \<Rightarrow> prices \<Rightarrow> request list \<Rightarrow> prices result \<times> request list" where
  "parseInvoicePositions api positionsData positions log0 =
     (case positionsData of
        JObj data \<Rightarrow>
          (case idx data ''rows'' of
             JArr rows \<Rightarrow> (Ok (parsePositions rows positions), log0)
           | _ \<Rightarrow>
               (case idx data ''meta'' of
                  JObj meta \<Rightarrow>
                    (case idx meta ''href'' of
                       JStr href \<Rightarrow>
                         (case makeRequest api GET (TrimPrefix href (baseURL api)) JNull [] log0 of
                            (None, log1) \<Rightarrow> (Ok positions, log1)
                          | (Some resp, log1) \<Rightarrow>
                              if StatusCode resp = 200 then
                                (case decodeObject resp of
                                   Some positionsResult \<Rightarrow>
                                     (case idx positionsResult ''rows'' of
                                        JArr rows \<Rightarrow> (Ok (parsePositions rows positions), log1)
                                      | _ \<Rightarrow> (Ok positions, log1))
                                 | None \<Rightarrow> (Ok positions, log1))
                              else (Ok positions, log1))
                     | _ \<Rightarrow> (Ok positions, log0))
                | _ \<Rightarrow> (Panic, log0)))
      | JArr data \<Rightarrow> (Ok (parsePositions data positions), log0)
      | _ \<Rightarrow> (Ok positions, log0))"

definition getInvoicePositions ::
  "API \<Rightarrow> obj \<Rightarrow> request list \<Rightarrow> prices result \<times> request list" where
  "getInvoicePositions api customerInvoice log0 =
     (case hrefOf customerInvoice of
        Some href \<Rightarrow>
          (case makeRequest api GET
                  (TrimPrefix href (baseURL api) @ ''?expand=positions.assortment'') JNull [] log0 of
             (None, log1) \<Rightarrow> (Ok Map.empty, log1)
           | (Some resp, log1) \<Rightarrow>
               if StatusCode resp = 200 then
                 (case decodeObject resp of
                    Some invoiceData \<Rightarrow>
                      (case map_of invoiceData ''positions'' of
                         Some positionsData \<Rightarrow>
                           parseInvoicePositions api positionsData Map.empty log1
                       | None \<Rightarrow> (Ok Map.empty, log1))
                  | None \<Rightarrow> (Ok Map.empty, log1))
               else (Ok Map.empty, log1))
      | None \<Rightarrow> (Ok Map.empty, log0))"

subsection \<open>findCustomerInvoice, getStoreFromInvoice, getVATRate\<close>

fun searchInvoice :: "API \<Rightarrow> string list \<Rightarrow> request list \<Rightarrow> obj result \<times> request list" where
  "searchInvoice api [] log0 = (Err InvoiceNotFound, log0)"
| "searchInvoice api (pattern # patterns) log0 =
     (case makeRequest api GET ''/entity/invoiceout'' JNull [(''filter'', pattern)] log0 of
        (None, log1) \<Rightarrow> searchInvoice api patterns log1
      | (Some resp, log1) \<Rightarrow>
          (case firstRow resp of
             None \<Rightarrow> searchInvoice api patterns log1
           | Some (JObj invoice) \<Rightarrow>
               (case hrefOf invoice of
                  None \<Rightarrow> searchInvoice api patterns log1
                | Some href \<Rightarrow>
                    (case makeRequest api GET (TrimPrefix href (baseURL api)) JNull [] log1 of
                       (None, log2) \<Rightarrow> searchInvoice api patterns log2
                     | (Some fullResp, log2) \<Rightarrow>
                         if StatusCode fullResp = 200 then
                           (case decodeObject fullResp of
                              Some invoiceData \<Rightarrow> (Ok invoiceData, log2)
                            | None \<Rightarrow> searchInvoice api patterns log2)
                         else searchInvoice api patterns log2))
           | Some _ \<Rightarrow> (Panic, log1)))"

definition findCustomerInvoice ::
  "API \<Rightarrow> string \<Rightarrow> request list \<Rightarrow> obj result \<times> request list" where
  "findCustomerInvoice api requisiteNumber log0 =
     (if requisiteNumber = [] then (Err RequisiteNotProvided, log0)
      else searchInvoice api
             [''name='' @ requisiteNumber, ''name~'' @ requisiteNumber,
              ''description~'' @ requisiteNumber] log0)"

definition getStoreFromInvoice ::
  "API \<Rightarrow> obj option \<Rightarrow> request list \<Rightarrow> obj result \<times> request list" where
  "getStoreFromInvoice api customerInvoice log0 =
     (case customerInvoice of
        None \<Rightarrow> (Err StoreMissing, log0)
      | Some invoice \<Rightarrow>
          (case idx invoice ''store'' of
             JObj storeMap \<Rightarrow>
               (let storeName = strOr (idx storeMap ''name'');
                    storeID = strOr (idx storeMap ''id'')
                in if storeName = [] \<and> storeID = [] then
                     (case hrefOf storeMap of
                        Some href \<Rightarrow>
                          (case makeRequest api GET (TrimPrefix href (baseURL api)) JNull [] log0 of
                             (None, log1) \<Rightarrow> (Err StoreMissing, log1)
                           | (Some storeResp, log1) \<Rightarrow>
                               if StatusCode storeResp = 200 then
                                 (case decodeObject storeResp of
                                    Some storeData \<Rightarrow> (Ok storeData, log1)
                                  | None \<Rightarrow> (Err StoreMissing, log1))
                               else (Err StoreMissing, log1))
                      | None \<Rightarrow> (Err StoreMissing, log0))
                   else (Ok storeMap, log0))
           | _ \<Rightarrow> (Err StoreMissing, log0)))"

text \<open>\<open>strconv.Atoi\<close> fails on a number that does not fit the 64-bit \<open>int\<close>.\<close>

definition getVATRate :: "string \<Rightarrow> int" where
  "getVATRate vatRateStr =
     (if vatRateStr = [] then 18
      else (case firstDigits vatRateStr of
              Some ds \<Rightarrow> if digitsVal ds \<le> 2 ^ 63 - 1 then digitsVal ds else 18
            | None \<Rightarrow> 18))"

subsection \<open>createPositionsFromUPD\<close>

definition ne_ukazan_lower :: string where
  "ne_ukazan_lower =
     [CHR 0xD0, CHR 0xBD, CHR 0xD0, CHR 0xB5, CHR 0x20, CHR 0xD1, CHR 0x83, CHR 0xD0, CHR 0xBA,
      CHR 0xD0, CHR 0xB0, CHR 0xD0, CHR 0xB7, CHR 0xD0, CHR 0xB0, CHR 0xD0, CHR 0xBD]"

definition artikul :: string where
  "artikul =
     [CHR 0xD0, CHR 0xB0, CHR 0xD1, CHR 0x80, CHR 0xD1, CHR 0x82, CHR 0xD0, CHR 0xB8, CHR 0xD0,
      CHR 0xBA, CHR 0xD1, CHR 0x83, CHR 0xD0, CHR 0xBB]"

definition bullet :: string where
  "bullet = [CHR 0xE2, CHR 0x80, CHR 0xA2]"

text \<open>The first part of the loop body: the product by article, then by name.\<close>

definition resolveProduct ::
  "API \<Rightarrow> InvoiceItem \<Rightarrow> request list \<Rightarrow> obj option result \<times> request list" where
  "resolveProduct api item log0 =
     andThen
       (if item_Article item \<noteq> [] then findProductByArticle api (item_Article item) log0
        else (Ok None, log0))
       (\<lambda>product log1.
          if product = None then findProduct api (item_Name item) log1
          else (Ok product, log1))"

text \<open>The second part: the price of the position, in kopecks.\<close>

definition positionPrice :: "prices \<Rightarrow> InvoiceItem \<Rightarrow> int" where
  "positionPrice invoicePositions item =
     (let priceKopecks0 = IntPart (Mul (item_Price item) (NewFromInt 100));
          priceKopecks1 =
            (if item_Article item \<noteq> [] then
               (case invoicePositions (''article:'' @ item_Article item) of
                  Some invoicePrice \<Rightarrow> if invoicePrice > 0 then invoicePrice else priceKopecks0
                | None \<Rightarrow> priceKopecks0)
             else priceKopecks0)
      in if priceKopecks1 = IntPart (Mul (item_Price item) (NewFromInt 100)) then
           (case invoicePositions (''name:'' @ item_Name item) of
              Some invoicePrice \<Rightarrow> if invoicePrice > 0 then invoicePrice else priceKopecks1
            | None \<Rightarrow> priceKopecks1)
         else priceKopecks1)"

text \<open>
  The position of a resolved item. The quantity is the \<open>float64\<close> nearest to the decimal;
  the model keeps the exact value.
\<close>

definition makePosition :: "prices \<Rightarrow> InvoiceItem \<Rightarrow> obj \<Rightarrow> json" where
  "makePosition invoicePositions item product =
     JObj [(''quantity'', JNum (dec_rat (item_Quantity item))),
           (''price'', JNum (of_int (positionPrice invoicePositions item))),
           (''assortment'', JObj [(''meta'', idx product ''meta'')]),
           (''vat'', JNum (of_int (getVATRate (item_VATRate item))))]"

definition missingItem :: "InvoiceItem \<Rightarrow> string" where
  "missingItem item =
     (let articleInfo = (if item_Article item = [] then ne_ukazan_lower else item_Article item)
      in item_Name item @ '' ('' @ artikul @ '': '' @ articleInfo @ '')'')"

fun positionsLoop ::
  "API \<Rightarrow> prices \<Rightarrow> InvoiceItem list \<Rightarrow> json list \<Rightarrow> string list \<Rightarrow> request list
     \<Rightarrow> (json list \<times> string list) result \<times> request list" where
  "positionsLoop api invoicePositions [] positions missingItems log0 =
     (Ok (positions, missingItems), log0)"
| "positionsLoop api invoicePositions (item # items) positions missingItems log0 =
     andThen (resolveProduct api item log0)
       (\<lambda>product log1.
          case product of
            Some p \<Rightarrow>
              positionsLoop api invoicePositions items
                (positions @ [makePosition invoicePositions item p]) missingItems log1
          | None \<Rightarrow>
              positionsLoop api invoicePositions items positions
                (missingItems @ [missingItem item]) log1)"

text \<open>The text of the error that lists the missing items.\<close>

definition ProductsNotFound_Message :: "string list \<Rightarrow> string" where
  "ProductsNotFound_Message missingItems =
     ''The following products from UPD are not found in MoySkald:'' @ [CHR 0x0A] @ bullet @ '' '' @
     Join_strings missingItems ([CHR 0x0A] @ bullet @ '' '') @ [CHR 0x0A, CHR 0x0A] @
     ''Create these products in MoySkald manually and retry UPD upload.''"

definition createPositionsFromUPD ::
  "API \<Rightarrow> UPDContent \<Rightarrow> obj option \<Rightarrow> request list \<Rightarrow> json list result \<times> request list" where
  "createPositionsFromUPD api content customerInvoice log0 =
     andThen
       (case customerInvoice of
          Some invoice \<Rightarrow> getInvoicePositions api invoice log0
        | None \<Rightarrow> (Ok Map.empty, log0))
       (\<lambda>invoicePositions log1.
          andThen (positionsLoop api invoicePositions (Items content) [] [] log1)
            (\<lambda>(positions, missingItems) log2.
               if missingItems \<noteq> [] then (Err (ProductsNotFound missingItems), log2)
               else if positions = [] then
                 (let totalPriceKopecks =
                        (if GreaterThan (TotalWithVAT content) Zero then
                           IntPart (Mul (TotalWithVAT content) (NewFromInt 100))
                         else 1000 * 100)
                  in andThen (getAnyAvailableService api log2)
                       (\<lambda>service log3.
                          case service of
                            None \<Rightarrow> (Err NoServiceAvailable, log3)
                          | Some s \<Rightarrow>
                              (Ok [JObj [(''quantity'', JNum 1),
                                         (''price'', JNum (of_int totalPriceKopecks)),
                                         (''assortment'', JObj [(''meta'', idx s ''meta'')]),
                                         (''vat'', JNum 18)]],
                               log3)))
               else (Ok positions, log2)))"

subsection \<open>createDemand, mapUPDToFactureOut, CreateInvoiceFromUPD\<close>

record MetaInfo =
  DocFlowID :: string
  MainDocumentPath :: string
  CardPath :: string

record CardInfo =
  ExternalIdentifier :: string
  Title :: string
  Date :: time
  SenderINN :: string
  SenderKPP :: string
  SenderName :: string

record UPDDocument =
  MetaInfo :: MetaInfo
  CardInfo :: CardInfo
  Content :: UPDContent

definition cyrillic_O :: string where
  "cyrillic_O = [CHR 0xD0, CHR 0x9E]"

definition demandData :: "API \<Rightarrow> UPDContent \<Rightarrow> obj \<Rightarrow> obj \<Rightarrow> obj \<Rightarrow> obj \<Rightarrow> obj" where
  "demandData api content organization counterparty store customerInvoice =
     setKey ''invoicesOut'' (JArr [JObj [(''meta'', idx customerInvoice ''meta'')]])
       [(''name'', JStr (cyrillic_O @ InvoiceNumber content)),
        (''moment'', JStr (formatMoment api (InvoiceDate content))),
        (''organization'', JObj [(''meta'', idx organization ''meta'')]),
        (''agent'', JObj [(''meta'', idx counterparty ''meta'')]),
        (''store'', JObj [(''meta'', idx store ''meta'')]),
        (''vatEnabled'', JBool True),
        (''vatIncluded'', JBool True),
        (''positions'', JArr [])]"

definition createDemand ::
  "API \<Rightarrow> UPDDocument \<Rightarrow> obj \<Rightarrow> obj \<Rightarrow> request list \<Rightarrow> obj result \<times> request list" where
  "createDemand api updDocument organization counterparty log0 =
     (let content = Content updDocument
      in case findCustomerInvoice api (RequisiteNumber content) log0 of
           (Panic, log1) \<Rightarrow> (Panic, log1)
         | (Err e, log1) \<Rightarrow> (Err (CustomerInvoiceNotFound (RequisiteNumber content)), log1)
         | (Ok customerInvoice, log1) \<Rightarrow>
             (case getStoreFromInvoice api (Some customerInvoice) log1 of
                (Panic, log2) \<Rightarrow> (Panic, log2)
              | (Err e, log2) \<Rightarrow> (Err (StoreNotSpecified (idx customerInvoice ''name'')), log2)
              | (Ok store, log2) \<Rightarrow>
                  andThen (createPositionsFromUPD api content (Some customerInvoice) log2)
                    (\<lambda>positions log3.
                       case makeRequest api POST ''/entity/demand''
                              (JObj (setKey ''positions'' (JArr positions)
                                 (demandData api content organization counterparty store
                                    customerInvoice)))
                              [] log3 of
                         (None, log4) \<Rightarrow> (Err DemandRequestFailed, log4)
                       | (Some resp, log4) \<Rightarrow>
                           if StatusCode resp = 200 then
                             (case decodeObject resp of
                                Some result \<Rightarrow> (Ok result, log4)
                              | None \<Rightarrow> (Err DemandDecodeFailed, log4))
                           else
                             (Err (DemandCreationFailed (StatusCode resp) (BodyText resp)),
                              log4))))"

text \<open>
  \<open>mapUPDToFactureOut\<close> looks the source invoice up again and assembles the positions again;
  it drops the errors of both calls, and a dropped assembly leaves \<open>positions\<close> \<open>nil\<close>.
\<close>

definition mapUPDToFactureOut ::
  "API \<Rightarrow> UPDDocument \<Rightarrow> obj \<Rightarrow> obj \<Rightarrow> obj \<Rightarrow> request list \<Rightarrow> obj result \<times> request list" where
  "mapUPDToFactureOut api updDocument organization counterparty demand log0 =
     (let content = Content updDocument;
          invoiceData =
            [(''name'', JStr (InvoiceNumber content)),
             (''moment'', JStr (formatMoment api (InvoiceDate content))),
             (''organization'', JObj [(''meta'', idx organization ''meta'')]),
             (''agent'', JObj [(''meta'', idx counterparty ''meta'')]),
             (''vatEnabled'', JBool True),
             (''vatIncluded'', JBool True),
             (''demands'', JArr [JObj [(''meta'', idx demand ''meta'')]]),
             (''positions'', JArr [])]
      in case findCustomerInvoice api (RequisiteNumber content) log0 of
           (Panic, log1) \<Rightarrow> (Panic, log1)
         | (found, log1) \<Rightarrow>
             (case createPositionsFromUPD api content
                     (case found of Ok customerInvoice \<Rightarrow> Some customerInvoice | _ \<Rightarrow> None)
                     log1 of
                (Panic, log2) \<Rightarrow> (Panic, log2)
              | (Err e, log2) \<Rightarrow> (Ok (setKey ''positions'' JNull invoiceData), log2)
              | (Ok positions, log2) \<Rightarrow>
                  (Ok (setKey ''positions'' (JArr positions) invoiceData), log2)))"

definition CreateInvoiceFromUPD ::
  "API \<Rightarrow> UPDDocument \<Rightarrow> request list \<Rightarrow> obj result \<times> request list" where
  "CreateInvoiceFromUPD api updDocument log0 =
     (case findOrganizationByINN api (org_INN (Seller (Content updDocument))) log0 of
        (Panic, log1) \<Rightarrow> (Panic, log1)
      | (Err e, log1) \<Rightarrow> (Err (SupplierNotFound (org_INN (Seller (Content updDocument)))), log1)
      | (Ok supplierOrg, log1) \<Rightarrow>
          andThen (getOrCreateCounterparty api (Buyer (Content updDocument)) log1)
            (\<lambda>buyerCounterparty log2.
               andThen (createDemand api updDocument supplierOrg buyerCounterparty log2)
                 (\<lambda>demand log3.
                    andThen
                      (mapUPDToFactureOut api updDocument supplierOrg buyerCounterparty demand log3)
                      (\<lambda>invoiceData log4.
                         case makeRequest api POST ''/entity/factureout'' (JObj invoiceData) []
                                log4 of
                           (None, log5) \<Rightarrow> (Err InvoiceRequestFailed, log5)
                         | (Some resp, log5) \<Rightarrow>
                             if StatusCode resp = 200 then
                               (case decodeObject resp of
                                  Some result \<Rightarrow>
                                    (Ok [(''factureout'', JObj result), (''demand'', JObj demand),
                                         (''success'', JBool True)],
                                     log5)
                                | None \<Rightarrow> (Err InvoiceDecodeFailed, log5))
                             else
                               (Err (InvoiceCreationFailed (StatusCode resp) (BodyText resp)),
                                log5)))))"

section \<open>Notions used to state the properties\<close>

definition sentinelOrg :: Organization where
  "sentinelOrg =
     \<lparr>org_Name = ne_ukazano, org_INN = ''0000000000'', org_KPP = [], org_Address = None\<rparr>"

text \<open>The files an effect creates or writes, and the entries the security check refuses.\<close>

fun effect_files :: "fs_effect \<Rightarrow> string list" where
  "effect_files (DirCreated p) = []"
| "effect_files (FileCreated p) = [p]"
| "effect_files (DataWritten p d) = [p]"

text \<open>
  The elements of a path between its slashes. A cleaned list of elements is a run of \<open>..\<close>
  (none when the path is rooted) followed by elements that are neither empty, nor \<open>.\<close>,
  nor \<open>..\<close>.
\<close>

definition slashFree :: "string \<Rightarrow> bool" where
  "slashFree e = (CHR ''/'' \<notin> set e)"

definition normalElem :: "string \<Rightarrow> bool" where
  "normalElem e = (e \<noteq> [] \<and> e \<noteq> ''.'' \<and> e \<noteq> ''..'' \<and> slashFree e)"

definition cleaned :: "bool \<Rightarrow> string list \<Rightarrow> bool" where
  "cleaned rooted L =
     (\<exists>k ns. L = replicate k ''..'' @ ns \<and> list_all normalElem ns \<and> (rooted \<longrightarrow> k = 0))"

definition cleanElems :: "string \<Rightarrow> string list" where
  "cleanElems s = foldl (cleanElem (hd s = CHR ''/'')) [] (split_slash s)"

definition fromElems :: "bool \<Rightarrow> string list \<Rightarrow> string" where
  "fromElems rooted L =
     (if rooted then CHR ''/'' # Join_strings L ''/''
      else if L = [] then ''.'' else Join_strings L ''/'')"

text \<open>
  A path lies strictly inside a directory when it is the directory, a slash, and further
  elements none of which is empty, \<open>.\<close> or \<open>..\<close>.
\<close>

definition strictlyInside :: "string \<Rightarrow> string \<Rightarrow> bool" where
  "strictlyInside dir p =
     (prefix (dir @ ''/'') p \<and> list_all normalElem (split_slash (drop (length dir + 1) p)))"

definition files_inside :: "string \<Rightarrow> fs_effect list \<Rightarrow> bool" where
  "files_inside extractDir eff =
     list_all (\<lambda>e. list_all (strictlyInside extractDir) (effect_files e)) eff"

definition escapes :: "string \<Rightarrow> zip_file \<Rightarrow> bool" where
  "escapes extractDir file =
     (\<not> HasPrefix (Join [extractDir, file_Name file]) (Clean extractDir @ ''/''))"

text \<open>
  The requests that create a shipment or an invoice, and the creation requests among the
  requests made.
\<close>

definition isCreation :: "request \<Rightarrow> bool" where
  "isCreation req =
     (req_method req = POST \<and>
      (req_endpoint req = ''/entity/demand'' \<or> req_endpoint req = ''/entity/factureout''))"

definition creations :: "request list \<Rightarrow> request list" where
  "creations reqs = filter isCreation reqs"

text \<open>The requests of the counterparty and product lookups.\<close>

definition counterpartySearchRequest :: "Organization \<Rightarrow> request" where
  "counterpartySearchRequest buyer =
     \<lparr>req_method = GET, req_endpoint = ''/entity/counterparty'', req_data = JNull,
      req_params = [(''filter'', ''inn='' @ org_INN buyer)]\<rparr>"

definition counterpartyCreateRequest :: "Organization \<Rightarrow> request" where
  "counterpartyCreateRequest buyer =
     \<lparr>req_method = POST, req_endpoint = ''/entity/counterparty'',
      req_data = JObj (counterpartyData buyer), req_params = []\<rparr>"

definition productByArticleRequest :: "string \<Rightarrow> request" where
  "productByArticleRequest article =
     \<lparr>req_method = GET, req_endpoint = ''/entity/product'', req_data = JNull,
      req_params = [(''filter'', ''article='' @ article)]\<rparr>"

definition productByNameRequest :: "string \<Rightarrow> request" where
  "productByNameRequest productName =
     \<lparr>req_method = GET, req_endpoint = ''/entity/product'', req_data = JNull,
      req_params = [(''filter'', ''name='' @ productName)]\<rparr>"



text \<open>The method, endpoint and parameters of a request, and a field of its payload.\<close>

definition summary :: "request \<Rightarrow> http_method \<times> string \<times> (string \<times> string) list" where
  "summary req = (req_method req, req_endpoint req, req_params req)"

definition payload :: "string \<Rightarrow> request \<Rightarrow> json" where
  "payload k req = (case req_data req of JObj m \<Rightarrow> idx m k | _ \<Rightarrow> JNull)"

subsection \<open>Concrete inputs of the examples\<close>

definition all_ok :: "io_op \<Rightarrow> bool" where
  "all_ok op = True"

definition no_xml :: "string \<Rightarrow> UPDXML option" where
  "no_xml content = None"

definition no_date :: "string \<Rightarrow> time option" where
  "no_date s = None"

definition env0 :: parser_env where
  "env0 = \<lparr>Now = 1700000000, Unmarshal = no_xml, ParseDate = no_date\<rparr>"

definition header_only :: string where
  "header_only = ''  <?xml version=1.0 encoding=windows-1251?>  ''"

definition broken_xml :: string where
  "broken_xml = replicate 120 (CHR ''<'')"

definition fs0 :: "string \<Rightarrow> file_state" where
  "fs0 path =
     (if path = ''temp/upd_extract/doc.xml'' then Readable header_only
      else if path = ''temp/upd_extract/bad.xml'' then Readable broken_xml
      else Missing)"

definition passwd_entry :: zip_file where
  "passwd_entry = \<lparr>file_Name = ''../../etc/passwd'', file_IsDir = False, file_Data = ''x''\<rparr>"

definition meta_entry :: zip_file where
  "meta_entry = \<lparr>file_Name = ''meta.xml'', file_IsDir = False, file_Data = ''m''\<rparr>"

definition xml_item0 :: XMLItem where
  "xml_item0 =
     \<lparr>xml_Name = ''Widget'', xml_Quantity = ''2'', xml_Price = ''99.00'',
      xml_AmountWithoutVAT = ''165.00'', xml_VATRate = ''20%'', xml_AmountWithVAT = ''198.00'',
      xml_Article = ''A1'', xml_VATSum = ''33.00''\<rparr>"

text \<open>
  An external system for the examples. Its answers do not depend on the earlier requests:
  a catalog with the product \<open>Gadget\<close> under the code \<open>A1\<close> and the product
  \<open>Widget\<close> under the code \<open>B2\<close>, one organization, one known counterparty, and the
  source invoice \<open>42\<close> with a warehouse and two positions.
\<close>

definition rowsBody :: "json list \<Rightarrow> response" where
  "rowsBody rows = \<lparr>StatusCode = 200, BodyJSON = Some (JObj [(''rows'', JArr rows)]), BodyText = []\<rparr>"

definition objBody :: "obj \<Rightarrow> response" where
  "objBody m = \<lparr>StatusCode = 200, BodyJSON = Some (JObj m), BodyText = []\<rparr>"

definition filterRequest :: "string \<Rightarrow> string \<Rightarrow> request" where
  "filterRequest endpoint f =
     \<lparr>req_method = GET, req_endpoint = endpoint, req_data = JNull, req_params = [(''filter'', f)]\<rparr>"

definition getRequest :: "string \<Rightarrow> request" where
  "getRequest endpoint =
     \<lparr>req_method = GET, req_endpoint = endpoint, req_data = JNull, req_params = []\<rparr>"

definition metaOf :: "string \<Rightarrow> string \<times> json" where
  "metaOf path = (''meta'', JObj [(''href'', JStr (''https://api'' @ path))])"

definition gadget :: obj where
  "gadget = [metaOf ''/entity/product/p1'', (''name'', JStr ''Gadget''), (''article'', JStr ''A1'')]"

definition widget :: obj where
  "widget = [metaOf ''/entity/product/p2'', (''name'', JStr ''Widget''), (''article'', JStr ''B2'')]"

definition sellerOrg :: obj where
  "sellerOrg = [metaOf ''/entity/organization/o1'', (''name'', JStr ''Seller'')]"

definition knownCounterparty :: obj where
  "knownCounterparty = [metaOf ''/entity/counterparty/c2'', (''name'', JStr ''Known'')]"

definition newCounterparty :: obj where
  "newCounterparty = [metaOf ''/entity/counterparty/c9'', (''name'', JStr ''New'')]"

definition sourceInvoice :: obj where
  "sourceInvoice =
     [metaOf ''/entity/invoiceout/1'', (''name'', JStr ''42''),
      (''store'', JObj [metaOf ''/entity/store/s1'', (''name'', JStr ''Main''), (''id'', JStr ''s1'')])]"

definition sourcePositions :: "json list" where
  "sourcePositions =
     [JObj [(''assortment'', JObj gadget), (''price'', JNum 9900)],
      JObj [(''assortment'', JObj widget), (''price'', JNum 5000)]]"

definition answer0 :: "request \<Rightarrow> response option" where
  "answer0 r =
     (if r = filterRequest ''/entity/product'' ''article=A1'' then Some (rowsBody [JObj gadget])
      else if r = filterRequest ''/entity/product'' ''name=Widget'' then Some (rowsBody [JObj widget])
      else if r = filterRequest ''/entity/product'' ''article=Z9'' then Some (rowsBody [])
      else if r = filterRequest ''/entity/product'' ''name=Unknown'' then Some (rowsBody [])
      else if r = filterRequest ''/entity/product'' ''name=Nameless'' then Some (rowsBody [])
      else if r = filterRequest ''/entity/organization'' ''inn=7700000000'' then
        Some (rowsBody [JObj sellerOrg])
      else if r = filterRequest ''/entity/counterparty'' ''inn=500000000000'' then Some (rowsBody [])
      else if r = filterRequest ''/entity/counterparty'' ''inn=7711111111'' then Some (rowsBody [])
      else if r = filterRequest ''/entity/counterparty'' ''inn=7722222222'' then
        Some (rowsBody [JObj knownCounterparty])
      else if req_method r = POST \<and> req_endpoint r = ''/entity/counterparty'' then
        Some (objBody newCounterparty)
      else if r = filterRequest ''/entity/invoiceout'' ''name=42'' then
        Some (rowsBody [JObj sourceInvoice])
      else if r = getRequest ''/entity/invoiceout/1'' then Some (objBody sourceInvoice)
      else if r = getRequest ''/entity/invoiceout/1?expand=positions.assortment'' then
        Some (objBody (sourceInvoice @ [(''positions'', JObj [(''rows'', JArr sourcePositions)])]))
      else None)"

definition server0 :: "request list \<Rightarrow> request \<Rightarrow> response option" where
  "server0 reqs r = answer0 r"

definition moment0 :: "time \<Rightarrow> string" where
  "moment0 t = ''2024-01-15 00:00:00.000''"

definition api0 :: API where
  "api0 = \<lparr>baseURL = ''https://api'', server = server0, formatMoment = moment0\<rparr>"

definition lineItem :: "string \<Rightarrow> string \<Rightarrow> string \<Rightarrow> InvoiceItem" where
  "lineItem name article price =
     \<lparr>item_LineNumber = 1, item_Name = name, item_UnitCode = [], item_UnitName = [],
      item_Quantity = parseDecimal ''2'', item_Price = parseDecimal price,
      item_AmountWithoutVAT = Zero, item_VATRate = ''20%'', item_VATAmount = Zero,
      item_AmountWithVAT = Zero, item_Article = article\<rparr>"

definition org0 :: "string \<Rightarrow> string \<Rightarrow> string \<Rightarrow> Organization" where
  "org0 name inn kpp = \<lparr>org_Name = name, org_INN = inn, org_KPP = kpp, org_Address = None\<rparr>"

definition doc0 :: "InvoiceItem list \<Rightarrow> UPDDocument" where
  "doc0 items =
     \<lparr>MetaInfo = \<lparr>DocFlowID = ''f1'', MainDocumentPath = ''doc.xml'', CardPath = ''card.xml''\<rparr>,
      CardInfo = \<lparr>ExternalIdentifier = ''e1'', Title = ''t'', Date = 0, SenderINN = [],
                  SenderKPP = [], SenderName = []\<rparr>,
      Content = (NewUPDContent ''17'' 0 (org0 ''Seller'' ''7700000000'' ''770001001'')
                   (org0 ''Known'' ''7722222222'' ''772201001''))
                \<lparr>Items := items, RequisiteNumber := ''42''\<rparr>\<rparr>"
















text \<open>
  An external system whose answers depend on the earlier requests: it is the system above,
  it answers the creation of a shipment and of an invoice with the created object, and once a
  shipment or an invoice has been created its catalog holds no product any more (every product
  lookup finds no row).
\<close>

definition createdDemand :: obj where
  "createdDemand = [metaOf ''/entity/demand/d1'', (''id'', JStr ''d1'')]"

definition createdInvoice :: obj where
  "createdInvoice = [metaOf ''/entity/factureout/f1'', (''id'', JStr ''f1'')]"

definition server1 :: "request list \<Rightarrow> request \<Rightarrow> response option" where
  "server1 reqs r =
     (if req_method r = POST \<and> req_endpoint r = ''/entity/demand'' then
        Some (objBody createdDemand)
      else if req_method r = POST \<and> req_endpoint r = ''/entity/factureout'' then
        Some (objBody createdInvoice)
      else if req_endpoint r = ''/entity/product'' \<and> creations reqs \<noteq> [] then
        Some (rowsBody [])
      else answer0 r)"

definition api1 :: API where
  "api1 = \<lparr>baseURL = ''https://api'', server = server1, formatMoment = moment0\<rparr>"

definition doc1 :: UPDDocument where
  "doc1 = doc0 [lineItem ''Gadget'' ''A1'' ''120.00'']"

section \<open>Properties of the parser\<close>

subsection \<open>Decimal parsing\<close>

text \<open>
  C8: \<open>parseDecimal\<close> returns a decimal for every string and has no failing branch: it
  returns what \<open>decimal.NewFromString\<close> parsed, and \<open>decimal.Zero\<close> otherwise. On the
  empty string and on \<open>abc\<close> it returns zero, and on \<open>12.50\<close> it returns 1250 with
  exponent -2, which is 12.50.
\<close>

theorem parseDecimal_safe:
  "parseDecimal [] = Zero \<and> parseDecimal ''abc'' = Zero \<and>
   parseDecimal ''12.50'' = \<lparr>dec_value = 1250, dec_exp = - 2\<rparr> \<and>
   dec_rat Zero = 0 \<and> dec_rat (parseDecimal ''12.50'') = 25 / 2 \<and>
   (\<forall>s. NewFromString s = Some (parseDecimal s) \<or> parseDecimal s = Zero)"
proof -
  have a: "parseDecimal [] = Zero" by (simp add: parseDecimal_def)
  have b: "parseDecimal ''abc'' = Zero" by code_simp
  have c: "parseDecimal ''12.50'' = \<lparr>dec_value = 1250, dec_exp = - 2\<rparr>" by code_simp
  have d: "dec_rat Zero = 0" by (simp add: dec_rat_def Zero_def)
  have e: "dec_rat (parseDecimal ''12.50'') = 25 / 2" by (simp add: c dec_rat_def)
  have f: "\<forall>s. NewFromString s = Some (parseDecimal s) \<or> parseDecimal s = Zero"
    by (simp add: parseDecimal_def split: option.splits)
  from a b c d e f show ?thesis by blast
qed

theorem parseDecimal_safe_witness:
  "NewFromString ''1e3'' = Some (parseDecimal ''1e3'') \<and> parseDecimal ''1.2.3'' = Zero"
proof -
  have "parseDecimal ''1e3'' \<noteq> Zero" by code_simp
  moreover have "NewFromString ''1.2.3'' \<noteq> Some (parseDecimal ''1.2.3'')" by code_simp
  ultimately show ?thesis using parseDecimal_safe by blast
qed

subsection \<open>Organizations\<close>

lemma parseOrganization_INN:
  "org_INN (parseOrganization lname linn lkpp iinn sur nm pat) \<noteq> []"
  by (simp add: parseOrganization_def Let_def)

lemma parseFullUPDContent_INN:
  "parseFullUPDContent env content = Inr c \<Longrightarrow>
   org_INN (Seller c) \<noteq> [] \<and> org_INN (Buyer c) \<noteq> []"
  by (auto simp: parseFullUPDContent_def createBasicUPDContent_def NewUPDContent_def Let_def
       parseParty_def parseOrganization_INN split: option.splits)

lemma parseUPDContent_INN:
  "parseUPDContent env fs d p = Inr c \<Longrightarrow>
   org_INN (Seller c) \<noteq> [] \<and> org_INN (Buyer c) \<noteq> []"
  by (auto simp: parseUPDContent_def Let_def createBasicUPDContent_def NewUPDContent_def
       dest: parseFullUPDContent_INN split: file_state.splits if_splits)

text \<open>
  C9: the tax id of every organization that parsing produces is not empty. This holds for
  \<open>parseOrganization\<close> in each of its three branches, hence for the seller and the buyer of
  every document that \<open>parseUPDContent\<close> returns, the fallback document included. When
  neither the legal-entity nor the individual tax id is given, the organization is the
  sentinel one, whose tax id is ten zeros.
\<close>

theorem parsed_INN_nonempty:
  "org_INN (parseOrganization lname linn lkpp iinn sur nm pat) \<noteq> [] \<and>
   (linn = [] \<and> iinn = [] \<longrightarrow>
      parseOrganization lname linn lkpp iinn sur nm pat = sentinelOrg) \<and>
   (parseUPDContent env fs d p = Inr c \<longrightarrow>
      org_INN (Seller c) \<noteq> [] \<and> org_INN (Buyer c) \<noteq> []) \<and>
   Seller (createBasicUPDContent env) = sentinelOrg \<and>
   Buyer (createBasicUPDContent env) = sentinelOrg \<and>
   org_INN sentinelOrg = ''0000000000''"
proof -
  have a: "linn = [] \<and> iinn = [] \<longrightarrow>
      parseOrganization lname linn lkpp iinn sur nm pat = sentinelOrg"
    by (simp add: parseOrganization_def sentinelOrg_def)
  have b: "Seller (createBasicUPDContent env) = sentinelOrg \<and>
      Buyer (createBasicUPDContent env) = sentinelOrg"
    by (simp add: createBasicUPDContent_def NewUPDContent_def sentinelOrg_def)
  have c: "org_INN sentinelOrg = ''0000000000''" by (simp add: sentinelOrg_def)
  from a b c parseOrganization_INN parseUPDContent_INN show ?thesis by blast
qed

theorem parsed_INN_nonempty_witness:
  "parseOrganization ''Acme'' [] ''770101001'' [] ''Ivanov'' ''Ivan'' [] = sentinelOrg \<and>
   parseUPDContent env0 fs0 ''temp/upd_extract'' ''doc.xml'' = Inr (createBasicUPDContent env0) \<and>
   org_INN (Seller (createBasicUPDContent env0)) \<noteq> [] \<and>
   org_INN (Buyer (createBasicUPDContent env0)) \<noteq> []"
proof -
  have h: "parseUPDContent env0 fs0 ''temp/upd_extract'' ''doc.xml'' =
      Inr (createBasicUPDContent env0)"
    by code_simp
  from parsed_INN_nonempty [of "''Acme''" "[]" "''770101001''" "[]" "''Ivanov''" "''Ivan''" "[]"
      env0 fs0 "''temp/upd_extract''" "''doc.xml''" "createBasicUPDContent env0"] h
  show ?thesis by simp
qed

subsection \<open>Line items\<close>

lemma enumerate_map: "enumerate n (map g xs) = map (\<lambda>(i, x). (i, g x)) (enumerate n xs)"
  by (induction xs arbitrary: n) simp_all

lemma parseInvoiceItem_ignores:
  "parseInvoiceItem i (x\<lparr>xml_AmountWithoutVAT := v\<rparr>) = parseInvoiceItem i x"
  by (simp add: parseInvoiceItem_def)

text \<open>
  C10: in every parsed line item the field \<open>AmountWithoutVAT\<close> is the parsed
  amount-including-VAT attribute of the source item, so it equals \<open>AmountWithVAT\<close>; and
  replacing the amount-without-VAT attributes of the source items by anything else leaves the
  parsed items unchanged.
\<close>

theorem parseInvoiceItems_amounts:
  "(\<forall>it \<in> set (parseInvoiceItems xs). item_AmountWithoutVAT it = item_AmountWithVAT it) \<and>
   (\<forall>i < length xs. item_AmountWithoutVAT (parseInvoiceItems xs ! i) =
       parseDecimal (xml_AmountWithVAT (xs ! i))) \<and>
   length (parseInvoiceItems xs) = length xs \<and>
   parseInvoiceItems (map (\<lambda>x. x\<lparr>xml_AmountWithoutVAT := f x\<rparr>) xs) = parseInvoiceItems xs"
proof -
  have a: "\<forall>it \<in> set (parseInvoiceItems xs). item_AmountWithoutVAT it = item_AmountWithVAT it"
    by (auto simp: parseInvoiceItems_def parseInvoiceItem_def)
  have b: "\<forall>i < length xs. item_AmountWithoutVAT (parseInvoiceItems xs ! i) =
      parseDecimal (xml_AmountWithVAT (xs ! i))"
    by (simp add: parseInvoiceItems_def parseInvoiceItem_def nth_enumerate_eq)
  have c: "length (parseInvoiceItems xs) = length xs"
    by (simp add: parseInvoiceItems_def)
  have d: "parseInvoiceItems (map (\<lambda>x. x\<lparr>xml_AmountWithoutVAT := f x\<rparr>) xs) =
      parseInvoiceItems xs"
    by (simp add: parseInvoiceItems_def enumerate_map parseInvoiceItem_ignores split_def)
  from a b c d show ?thesis by blast
qed

theorem parseInvoiceItems_amounts_witness:
  "item_AmountWithoutVAT (parseInvoiceItems [xml_item0] ! 0) =
     \<lparr>dec_value = 19800, dec_exp = - 2\<rparr> \<and>
   item_AmountWithVAT (parseInvoiceItems [xml_item0] ! 0) =
     \<lparr>dec_value = 19800, dec_exp = - 2\<rparr> \<and>
   parseDecimal (xml_AmountWithoutVAT xml_item0) = \<lparr>dec_value = 16500, dec_exp = - 2\<rparr>"
proof -
  have a: "parseDecimal (xml_AmountWithVAT ([xml_item0] ! 0)) =
      \<lparr>dec_value = 19800, dec_exp = - 2\<rparr>"
    by code_simp
  have b: "parseDecimal (xml_AmountWithoutVAT xml_item0) = \<lparr>dec_value = 16500, dec_exp = - 2\<rparr>"
    by code_simp
  have c: "parseInvoiceItems [xml_item0] ! 0 \<in> set (parseInvoiceItems [xml_item0])"
    by (simp add: parseInvoiceItems_def)
  from parseInvoiceItems_amounts [of "[xml_item0]"] a b c show ?thesis
    by (metis length_Cons list.size(3) zero_less_Suc)
qed

subsection \<open>The fallback document\<close>




subsection \<open>The lexical form of cleaned paths\<close>

lemma split_slash_nonempty [simp]: "split_slash s \<noteq> []"
  by (induction s) (auto split: list.splits)

lemma split_slash_slashFree: "e \<in> set (split_slash s) \<Longrightarrow> slashFree e"
  by (induction s arbitrary: e) (auto simp: slashFree_def split: list.splits if_splits)

lemma split_slash_append: "split_slash (a @ CHR ''/'' # b) = split_slash a @ split_slash b"
  by (induction a) (auto split: list.splits)

lemma split_slash_single: "slashFree e \<Longrightarrow> split_slash e = [e]"
  by (induction e) (auto simp: slashFree_def)

lemma split_slash_Join:
  "L \<noteq> [] \<Longrightarrow> list_all slashFree L \<Longrightarrow> split_slash (Join_strings L ''/'') = L"
proof (induction L "''/''" rule: Join_strings.induct)
  case 1
  then show ?case by simp
next
  case (2 x)
  then show ?case by (simp add: split_slash_single)
next
  case (3 x y ys)
  then show ?case by (simp add: split_slash_append split_slash_single)
qed

lemma cleaned_Nil [simp]: "cleaned rooted []"
  by (simp add: cleaned_def)

lemma cleanElem_cleaned:
  assumes "cleaned rooted out" and "slashFree e"
  shows "cleaned rooted (cleanElem rooted out e)"
proof -
  from assms(1) obtain k ns where out: "out = replicate k ''..'' @ ns"
    and ns: "list_all normalElem ns" and k: "rooted \<longrightarrow> k = 0"
    by (auto simp: cleaned_def)
  consider (skip) "e = [] \<or> e = ''.''" | (up) "e = ''..''" | (elem) "normalElem e"
    using assms(2) by (auto simp: normalElem_def)
  then show ?thesis
  proof cases
    case skip
    with assms(1) show ?thesis by (auto simp: cleanElem_def)
  next
    case elem
    then have "e \<noteq> [] \<and> e \<noteq> ''.'' \<and> e \<noteq> ''..''" by (simp add: normalElem_def)
    moreover have "cleaned rooted (out @ [e])"
      unfolding cleaned_def using out ns k elem
      by (intro exI [of _ k] exI [of _ "ns @ [e]"]) simp
    ultimately show ?thesis by (simp add: cleanElem_def)
  next
    case up
    show ?thesis
    proof (cases "ns = []")
      case True
      with out have o: "out = replicate k ''..''" by simp
      then have "out = [] \<or> last out = ''..''" by (cases k) auto
      moreover have "\<not> rooted \<Longrightarrow> cleaned rooted (out @ [''..''])"
        unfolding cleaned_def using o
        by (intro exI [of _ "Suc k"] exI [of _ "[]"]) (simp add: replicate_append_same)
      ultimately show ?thesis using up assms(1) by (auto simp: cleanElem_def)
    next
      case False
      with ns have l: "normalElem (last ns)" by (simp add: list_all_iff)
      from False out have lo: "last out = last ns" by simp
      with l have "last out \<noteq> ''..''" by (auto simp: normalElem_def)
      moreover from False out have "out \<noteq> []" by simp
      moreover have "cleaned rooted (butlast out)"
        unfolding cleaned_def using out False ns k
        by (intro exI [of _ k] exI [of _ "butlast ns"])
           (auto simp: butlast_append list_all_iff dest: in_set_butlastD)
      ultimately show ?thesis using up by (simp add: cleanElem_def)
    qed
  qed
qed

lemma foldl_cleanElem_cleaned:
  "cleaned rooted out \<Longrightarrow> list_all slashFree L \<Longrightarrow> cleaned rooted (foldl (cleanElem rooted) out L)"
  by (induction L arbitrary: out) (simp_all add: cleanElem_cleaned)

lemma cleaned_elems:
  assumes "cleaned rooted L" and "e \<in> set L"
  shows "e = ''..'' \<or> normalElem e"
proof -
  from assms(1) obtain k ns where L: "L = replicate k ''..'' @ ns" and ns: "list_all normalElem ns"
    unfolding cleaned_def by blast
  from assms(2) L have "e \<in> set (replicate k ''..'') \<or> e \<in> set ns" by simp
  then show ?thesis
  proof
    assume "e \<in> set (replicate k ''..'')"
    then have "e = ''..''" by (simp only: in_set_replicate)
    then show ?thesis by (rule disjI1)
  next
    assume "e \<in> set ns"
    with ns show ?thesis by (simp add: list_all_iff)
  qed
qed

lemma dotdot_slashFree: "slashFree ''..''"
  by (simp add: slashFree_def)

lemma cleaned_slashFree:
  assumes "cleaned rooted L"
  shows "list_all slashFree L"
proof -
  have "slashFree e" if "e \<in> set L" for e
  proof -
    from cleaned_elems [OF assms that] show ?thesis
      by (auto simp only: dotdot_slashFree normalElem_def)
  qed
  then show ?thesis by (simp add: list_all_iff)
qed

lemma cleaned_after_normal:
  assumes "cleaned rooted (A @ u # B)" and "normalElem u"
  shows "list_all normalElem B"
proof -
  from assms(1) obtain k ns where eq: "A @ u # B = replicate k ''..'' @ ns"
    and ns: "list_all normalElem ns"
    by (auto simp: cleaned_def)
  have "k \<le> length A"
  proof (rule ccontr)
    assume "\<not> k \<le> length A"
    then have lt: "length A < k" by simp
    have "(A @ u # B) ! length A = u" by simp
    moreover have "(replicate k ''..'' @ ns) ! length A = ''..''" using lt by (simp add: nth_append)
    ultimately have "u = ''..''" using eq by simp
    with assms(2) show False by (simp add: normalElem_def)
  qed
  then have "drop (Suc (length A)) (A @ u # B) = drop (Suc (length A) - k) ns"
    unfolding eq by simp
  then have "B = drop (Suc (length A) - k) ns" by simp
  with ns show ?thesis by (auto simp: list_all_iff dest: in_set_dropD)
qed

lemma cleaned_prefix: "cleaned rooted (A @ B) \<Longrightarrow> cleaned rooted A"
proof -
  assume "cleaned rooted (A @ B)"
  then obtain k ns where eq: "A @ B = replicate k ''..'' @ ns"
    and ns: "list_all normalElem ns" and k: "rooted \<longrightarrow> k = 0"
    by (auto simp: cleaned_def)
  have "A = take (length A) (replicate k ''..'' @ ns)" using eq by (metis append_eq_conv_conj)
  then have A: "A = replicate (min k (length A)) ''..'' @ take (length A - k) ns"
    by (simp add: min.commute)
  show "cleaned rooted A"
    unfolding cleaned_def
    apply (rule exI [of _ "min k (length A)"], rule exI [of _ "take (length A - k) ns"])
    using A ns k by (auto simp: list_all_iff dest: in_set_takeD)
qed

lemma foldl_cleanElem_id:
  "cleaned rooted (out @ L) \<Longrightarrow> foldl (cleanElem rooted) out L = out @ L"
proof (induction L arbitrary: out)
  case Nil
  then show ?case by simp
next
  case (Cons e L)
  from Cons.prems have c: "cleaned rooted ((out @ [e]) @ L)" by simp
  then have ce: "cleaned rooted (out @ [e])" by (rule cleaned_prefix)
  from cleaned_elems [OF Cons.prems, of e] have e: "e = ''..'' \<or> normalElem e" by simp
  have "cleanElem rooted out e = out @ [e]"
  proof (cases "e = ''..''")
    case False
    with e show ?thesis by (auto simp: cleanElem_def normalElem_def)
  next
    case True
    from ce obtain k ns where eq: "out @ [e] = replicate k ''..'' @ ns"
      and ns: "list_all normalElem ns" and k: "rooted \<longrightarrow> k = 0"
      by (auto simp: cleaned_def)
    have nsE: "ns = []"
    proof (rule ccontr)
      assume "ns \<noteq> []"
      then have "last (replicate k ''..'' @ ns) = last ns" by simp
      with eq have "last ns = e" by (metis last_snoc)
      moreover from \<open>ns \<noteq> []\<close> ns have "normalElem (last ns)" by (simp add: list_all_iff)
      ultimately show False using True by (simp add: normalElem_def)
    qed
    with eq have eq': "out @ [e] = replicate k ''..''" by simp
    then obtain j where j: "k = Suc j" by (cases k) auto
    with k have nr: "\<not> rooted" by auto
    have "replicate (Suc j) ''..'' = replicate j ''..'' @ [''..'']"
      by (simp add: replicate_append_same)
    with eq' j have "out = replicate j ''..''" by simp
    then have "out = [] \<or> last out = ''..''" by (cases j) auto
    with nr True show ?thesis by (auto simp: cleanElem_def)
  qed
  with Cons.IH [OF c] show ?case by simp
qed


lemma Clean_fromElems: "s \<noteq> [] \<Longrightarrow> Clean s = fromElems (hd s = CHR ''/'') (cleanElems s)"
  by (simp add: Clean_def cleanElems_def fromElems_def Let_def)

lemma cleanElems_cleaned: "cleaned (hd s = CHR ''/'') (cleanElems s)"
  unfolding cleanElems_def
  by (rule foldl_cleanElem_cleaned) (simp_all add: list_all_iff split_slash_slashFree)

lemma Join_strings_hd:
  "x \<noteq> [] \<Longrightarrow> hd (Join_strings (x # xs) ''/'') = hd x"
  by (cases xs) simp_all

lemma normalElem_hd: "e = ''..'' \<or> normalElem e \<Longrightarrow> e \<noteq> [] \<and> hd e \<noteq> CHR ''/''"
  by (cases e) (auto simp: normalElem_def slashFree_def)

lemma fromElems_hd:
  assumes "cleaned rooted L"
  shows "fromElems rooted L \<noteq> [] \<and> (hd (fromElems rooted L) = CHR ''/'') = rooted"
proof (cases rooted)
  case True
  then show ?thesis by (simp add: fromElems_def)
next
  case False
  show ?thesis
  proof (cases L)
    case Nil
    with False show ?thesis by (simp add: fromElems_def)
  next
    case (Cons x xs)
    with cleaned_elems [OF assms, of x] have "x = ''..'' \<or> normalElem x" by simp
    then have x: "x \<noteq> [] \<and> hd x \<noteq> CHR ''/''" by (rule normalElem_hd)
    then have "hd (Join_strings (x # xs) ''/'') = hd x" by (simp add: Join_strings_hd)
    moreover from x have "Join_strings (x # xs) ''/'' \<noteq> []" by (cases xs) simp_all
    ultimately show ?thesis using False Cons x by (simp add: fromElems_def)
  qed
qed

lemma Clean_nonempty: "Clean s \<noteq> []"
proof (cases "s = []")
  case True
  then show ?thesis by (simp add: Clean_def)
next
  case False
  with fromElems_hd [OF cleanElems_cleaned, of s] show ?thesis
    by (simp add: Clean_fromElems)
qed

lemma split_slash_fromElems:
  assumes "cleaned rooted L" and "L \<noteq> []"
  shows "split_slash (fromElems rooted L) = (if rooted then [] # L else L)"
proof -
  from assms have j: "split_slash (Join_strings L ''/'') = L"
    by (simp add: split_slash_Join cleaned_slashFree)
  have "split_slash ([] @ CHR ''/'' # Join_strings L ''/'') = split_slash [] @ split_slash (Join_strings L ''/'')"
    by (rule split_slash_append)
  with j assms(2) show ?thesis by (simp add: fromElems_def)
qed

lemma foldl_cleanElem_skip: "foldl (cleanElem rooted) out ([] # L) = foldl (cleanElem rooted) out L"
  by (simp add: cleanElem_def)

lemma cleanElems_fromElems:
  assumes "cleaned rooted L" and "L \<noteq> []"
  shows "cleanElems (fromElems rooted L) = L"
proof -
  let ?d = "fromElems rooted L"
  from fromElems_hd [OF assms(1)] have hd: "(hd ?d = CHR ''/'') = rooted" by simp
  have "cleanElems ?d = foldl (cleanElem rooted) [] (if rooted then [] # L else L)"
    by (simp only: cleanElems_def hd split_slash_fromElems [OF assms])
  also have "\<dots> = foldl (cleanElem rooted) [] L"
    by (cases rooted) (simp_all add: cleanElem_def)
  also have "\<dots> = [] @ L"
    by (rule foldl_cleanElem_id) (simp add: assms(1))
  finally show ?thesis by simp
qed

lemma Clean_fromElems_id:
  assumes "cleaned rooted L" and "L \<noteq> []"
  shows "Clean (fromElems rooted L) = fromElems rooted L"
  using fromElems_hd [OF assms(1)] cleanElems_fromElems [OF assms]
  by (simp add: Clean_fromElems)

lemma upd_extract_normal: "normalElem ''upd_extract''"
  by (simp add: normalElem_def slashFree_def)

lemma Join_two: "a \<noteq> [] \<Longrightarrow> Join [a, b] = Clean (a @ CHR ''/'' # b)"
  by (simp add: Join_def)

lemma cleanElems_append:
  "a \<noteq> [] \<Longrightarrow>
   cleanElems (a @ CHR ''/'' # b) =
     foldl (cleanElem (hd a = CHR ''/'')) (cleanElems a) (split_slash b)"
  by (simp add: cleanElems_def split_slash_append)

lemma cleanElem_normal: "normalElem e \<Longrightarrow> cleanElem rooted out e = out @ [e]"
  by (auto simp: cleanElem_def normalElem_def)

lemma extractDir_form:
  assumes "D \<noteq> []"
  shows "Join [D, ''upd_extract''] =
           fromElems (hd D = CHR ''/'') (cleanElems D @ [''upd_extract'']) \<and>
         cleaned (hd D = CHR ''/'') (cleanElems D @ [''upd_extract''])"
proof -
  let ?r = "hd D = CHR ''/''"
  let ?s = "D @ CHR ''/'' # ''upd_extract''"
  from assms have hd: "(hd ?s = CHR ''/'') = ?r" by simp
  have sp: "split_slash ''upd_extract'' = [''upd_extract'']"
    by (rule split_slash_single) (simp add: slashFree_def)
  have els: "cleanElems ?s = cleanElems D @ [''upd_extract'']"
    by (simp only: cleanElems_append [OF assms] sp) (simp add: cleanElem_normal upd_extract_normal)
  have "cleaned (hd ?s = CHR ''/'') (cleanElems ?s)" by (rule cleanElems_cleaned)
  with els hd have c: "cleaned ?r (cleanElems D @ [''upd_extract''])" by simp
  have "Join [D, ''upd_extract''] = Clean ?s" using assms by (rule Join_two)
  also have "\<dots> = fromElems (hd ?s = CHR ''/'') (cleanElems ?s)"
    by (rule Clean_fromElems) simp
  finally show ?thesis using els hd c by simp
qed

lemma inside_elems:
  assumes "D \<noteq> []"
      and "HasPrefix (Join [Join [D, ''upd_extract''], name]) (Clean (Join [D, ''upd_extract'']) @ ''/'')"
  shows "Clean (Join [D, ''upd_extract'']) = Join [D, ''upd_extract''] \<and>
         (\<exists>rest. Join [Join [D, ''upd_extract''], name] = Join [D, ''upd_extract''] @ ''/'' @ rest \<and>
            foldl (cleanElem (hd D = CHR ''/'')) (cleanElems D @ [''upd_extract'']) (split_slash name) =
              cleanElems D @ ''upd_extract'' # split_slash rest \<and>
            list_all normalElem (split_slash rest))"
proof -
  let ?r = "hd D = CHR ''/''"
  let ?L = "cleanElems D @ [''upd_extract'']"
  let ?d = "Join [D, ''upd_extract'']"
  from extractDir_form [OF assms(1)] have d: "?d = fromElems ?r ?L" and cL: "cleaned ?r ?L"
    by simp_all
  have Lne: "?L \<noteq> []" by simp
  from Clean_fromElems_id [OF cL Lne] d have idem: "Clean ?d = ?d" by simp
  from cleanElems_fromElems [OF cL Lne] d have eld: "cleanElems ?d = ?L" by simp
  from fromElems_hd [OF cL] d have dne: "?d \<noteq> []" and dhd: "(hd ?d = CHR ''/'') = ?r"
    by simp_all
  let ?s = "?d @ CHR ''/'' # name"
  let ?F = "cleanElems ?s"
  from dne dhd have shd: "(hd ?s = CHR ''/'') = ?r" by simp
  have F: "?F = foldl (cleanElem ?r) ?L (split_slash name)"
    using cleanElems_append [OF dne, of name] eld dhd by simp
  have P: "Join [?d, name] = fromElems ?r ?F"
    using Join_two [OF dne, of name] Clean_fromElems [of ?s] shd by simp
  have cF: "cleaned ?r ?F" using cleanElems_cleaned [of ?s] shd by simp
  from assms(2) idem obtain rest where rest: "Join [?d, name] = ?d @ ''/'' @ rest"
    by (auto simp: HasPrefix_def prefix_def)
  have len: "2 \<le> length (Join [?d, name])"
    using rest dne by (cases ?d) simp_all
  have Fne: "?F \<noteq> []"
  proof
    assume "?F = []"
    with P have "length (Join [?d, name]) = 1" by (simp add: fromElems_def)
    with len show False by simp
  qed
  have "split_slash (Join [?d, name]) = split_slash ?d @ split_slash rest"
    using rest split_slash_append [of ?d rest] by simp
  moreover have "split_slash (Join [?d, name]) = (if ?r then [] # ?F else ?F)"
    using P split_slash_fromElems [OF cF Fne] by simp
  moreover have "split_slash ?d = (if ?r then [] # ?L else ?L)"
    using d split_slash_fromElems [OF cL Lne] by simp
  ultimately have FE: "?F = cleanElems D @ ''upd_extract'' # split_slash rest"
    by (simp split: if_splits)
  with cF have "cleaned ?r (cleanElems D @ ''upd_extract'' # split_slash rest)" by simp
  then have "list_all normalElem (split_slash rest)"
    using upd_extract_normal by (rule cleaned_after_normal)
  with idem rest FE F show ?thesis by auto
qed

lemma split_passwd: "split_slash ''../../etc/passwd'' = [''..'', ''..'', ''etc'', ''passwd'']"
  by code_simp

lemma passwd_escapes:
  assumes "D \<noteq> []"
  shows "\<not> HasPrefix (Join [Join [D, ''upd_extract''], ''../../etc/passwd''])
             (Clean (Join [D, ''upd_extract'']) @ ''/'')"
proof
  let ?r = "hd D = CHR ''/''"
  let ?E = "cleanElems D"
  assume "HasPrefix (Join [Join [D, ''upd_extract''], ''../../etc/passwd''])
             (Clean (Join [D, ''upd_extract'']) @ ''/'')"
  from inside_elems [OF assms this] obtain rest where
    F: "foldl (cleanElem ?r) (?E @ [''upd_extract'']) (split_slash ''../../etc/passwd'') =
          ?E @ ''upd_extract'' # split_slash rest"
    by blast
  have up1: "cleanElem ?r (?E @ [''upd_extract'']) ''..'' = ?E"
    by (simp add: cleanElem_def)
  have etc: "cleanElem ?r out ''etc'' = out @ [''etc'']" for out
    by (simp add: cleanElem_def)
  have pw: "cleanElem ?r out ''passwd'' = out @ [''passwd'']" for out
    by (simp add: cleanElem_def)
  from F have eq: "cleanElem ?r ?E ''..'' @ [''etc'', ''passwd''] = ?E @ ''upd_extract'' # split_slash rest"
    by (simp only: split_passwd foldl.simps up1 etc pw) simp
  have "(?E \<noteq> [] \<and> cleanElem ?r ?E ''..'' = butlast ?E) \<or>
        cleanElem ?r ?E ''..'' = ?E \<or> cleanElem ?r ?E ''..'' = ?E @ [''..'']"
    by (simp add: cleanElem_def)
  then consider (pop) "?E \<noteq> []" "cleanElem ?r ?E ''..'' = butlast ?E"
    | (stay) "cleanElem ?r ?E ''..'' = ?E"
    | (push) "cleanElem ?r ?E ''..'' = ?E @ [''..'']"
    by blast
  then show False
  proof cases
    case pop
    with eq have e: "butlast ?E @ [''etc'', ''passwd''] = ?E @ ''upd_extract'' # split_slash rest"
      by simp
    then have "length (butlast ?E @ [''etc'', ''passwd'']) =
        length (?E @ ''upd_extract'' # split_slash rest)"
      by (rule arg_cong)
    then have "length (butlast ?E) + 2 = length ?E + 1 + length (split_slash rest)"
      by simp
    with pop(1) have "length (split_slash rest) = 0" by (cases ?E rule: rev_cases) simp_all
    then have "split_slash rest = []" by simp
    then show False by simp
  next
    case stay
    with eq show False by simp
  next
    case push
    with eq show False by simp
  qed
qed

lemma inside_normal:
  assumes "D \<noteq> []"
      and "HasPrefix (Join [Join [D, ''upd_extract''], name]) (Clean (Join [D, ''upd_extract'']) @ ''/'')"
  shows "Clean (Join [D, ''upd_extract'']) = Join [D, ''upd_extract''] \<and>
         (\<exists>rest. Join [Join [D, ''upd_extract''], name] = Join [D, ''upd_extract''] @ ''/'' @ rest \<and>
                 list_all normalElem (split_slash rest))"
  using inside_elems [OF assms] by blast

lemma check_strictlyInside:
  assumes "D \<noteq> []"
      and "HasPrefix (Join [Join [D, ''upd_extract''], name]) (Clean (Join [D, ''upd_extract'']) @ ''/'')"
  shows "strictlyInside (Join [D, ''upd_extract'']) (Join [Join [D, ''upd_extract''], name])"
proof -
  from inside_normal [OF assms] obtain rest where
    r: "Join [Join [D, ''upd_extract''], name] = Join [D, ''upd_extract''] @ ''/'' @ rest"
    and n: "list_all normalElem (split_slash rest)"
    by blast
  from r have "prefix (Join [D, ''upd_extract''] @ ''/'') (Join [Join [D, ''upd_extract''], name])"
    by (simp add: prefix_def)
  moreover from r have "drop (length (Join [D, ''upd_extract'']) + 1)
      (Join [Join [D, ''upd_extract''], name]) = rest"
    by simp
  ultimately show ?thesis using n by (simp add: strictlyInside_def)
qed

lemma Dir_nonempty: "Dir path \<noteq> []"
  by (simp add: Dir_def Clean_nonempty)

subsection \<open>The extraction directory\<close>

lemma extractArchive_dir:
  "extractArchive ok archive zipPath = (Inr d, eff) \<Longrightarrow> d = Join [Dir zipPath, ''upd_extract'']"
  by (auto simp: extractArchive_def Let_def split: option.splits if_splits prod.splits sum.splits)

text \<open>
  C4, as the program has it: the extraction directory is the fixed name \<open>upd_extract\<close>
  inside the directory of the temporary archive, and \<open>CleanupTempFiles\<close> removes that same
  directory. It does not depend on the unique file name of the archive: two extractions of
  archives that lie in the same directory use the same extraction directory.
\<close>

theorem extractArchive_fixed_directory:
  assumes "extractArchive ok1 archive1 zipPath1 = (Inr d1, eff1)"
      and "extractArchive ok2 archive2 zipPath2 = (Inr d2, eff2)"
      and "Dir zipPath1 = Dir zipPath2"
  shows "d1 = d2 \<and> d1 = Join [Dir zipPath1, ''upd_extract''] \<and>
         CleanupTempFiles_extractDir zipPath1 = d1"
  using assms extractArchive_dir [OF assms(1)] extractArchive_dir [OF assms(2)]
  by (simp add: CleanupTempFiles_extractDir_def)

theorem extractArchive_fixed_directory_witness:
  "Dir ''temp/upd_1.zip'' = Dir ''temp/upd_2.zip'' \<and>
   CleanupTempFiles_extractDir ''temp/upd_1.zip'' = ''temp/upd_extract'' \<and>
   extractArchive all_ok (Some [meta_entry]) ''temp/upd_2.zip'' =
     (Inr ''temp/upd_extract'',
      [DirCreated ''temp/upd_extract'', DirCreated ''temp/upd_extract'',
       FileCreated ''temp/upd_extract/meta.xml'', DataWritten ''temp/upd_extract/meta.xml'' ''m''])"
proof -
  have a: "extractArchive all_ok (Some []) ''temp/upd_1.zip'' =
      (Inr ''temp/upd_extract'', [DirCreated ''temp/upd_extract''])"
    by code_simp
  have b: "extractArchive all_ok (Some [meta_entry]) ''temp/upd_2.zip'' =
     (Inr ''temp/upd_extract'',
      [DirCreated ''temp/upd_extract'', DirCreated ''temp/upd_extract'',
       FileCreated ''temp/upd_extract/meta.xml'', DataWritten ''temp/upd_extract/meta.xml'' ''m''])"
    by code_simp
  have c: "Dir ''temp/upd_1.zip'' = Dir ''temp/upd_2.zip''" by code_simp
  from extractArchive_fixed_directory [OF a b c] b c show ?thesis by simp
qed

text \<open>
  C4, as it is stated: that two requests with distinct temporary archives in the same
  directory get distinct extraction directories fails: both archives below are extracted into
  \<open>temp/upd_extract\<close>.
\<close>

theorem extractArchive_directories_coincide:
  "''temp/upd_1.zip'' \<noteq> ''temp/upd_2.zip'' \<and>
   Dir ''temp/upd_1.zip'' = ''temp'' \<and> Dir ''temp/upd_2.zip'' = ''temp'' \<and>
   fst (extractArchive all_ok (Some []) ''temp/upd_1.zip'') = Inr ''temp/upd_extract'' \<and>
   fst (extractArchive all_ok (Some []) ''temp/upd_2.zip'') = Inr ''temp/upd_extract''"
  by code_simp

subsection \<open>Entries that leave the extraction directory\<close>

lemma extractFile_files_inside:
  assumes "D \<noteq> []" and "files_inside (Join [D, ''upd_extract'']) eff"
  shows "files_inside (Join [D, ''upd_extract''])
           (snd (extractFile ok (Join [D, ''upd_extract'']) x eff))"
proof (cases "HasPrefix (Join [Join [D, ''upd_extract''], file_Name x])
                (Clean (Join [D, ''upd_extract'']) @ ''/'')")
  case False
  with assms(2) show ?thesis by (simp add: extractFile_def)
next
  case True
  from check_strictlyInside [OF assms(1) True] assms(2) True show ?thesis
    by (simp add: extractFile_def files_inside_def Let_def)
qed

lemma extractFiles_files_inside:
  "D \<noteq> [] \<Longrightarrow> files_inside (Join [D, ''upd_extract'']) eff \<Longrightarrow>
   files_inside (Join [D, ''upd_extract''])
     (snd (extractFiles ok (Join [D, ''upd_extract'']) xs eff))"
proof (induction xs arbitrary: eff)
  case Nil
  then show ?case by simp
next
  case (Cons x xs)
  from Cons.prems have "files_inside (Join [D, ''upd_extract''])
      (snd (extractFile ok (Join [D, ''upd_extract'']) x eff))"
    by (rule extractFile_files_inside)
  with Cons.IH [OF Cons.prems(1)] show ?case
    by (cases "extractFile ok (Join [D, ''upd_extract'']) x eff") (auto split: sum.splits)
qed

lemma extractArchive_files_inside:
  "files_inside (Join [Dir zipPath, ''upd_extract'']) (snd (extractArchive ok archive zipPath))"
proof (cases archive)
  case None
  then show ?thesis by (simp add: extractArchive_def files_inside_def)
next
  case (Some xs)
  let ?d = "Join [Dir zipPath, ''upd_extract'']"
  show ?thesis
  proof (cases "ok (OpMkdirAll ?d)")
    case False
    with Some show ?thesis by (simp add: extractArchive_def files_inside_def)
  next
    case True
    obtain r eff where r: "extractFiles ok ?d xs [DirCreated ?d] = (r, eff)"
      by (cases "extractFiles ok ?d xs [DirCreated ?d]")
    have "files_inside ?d [DirCreated ?d]" by (simp add: files_inside_def)
    with Dir_nonempty have "files_inside ?d (snd (extractFiles ok ?d xs [DirCreated ?d]))"
      by (rule extractFiles_files_inside)
    with r have "files_inside ?d eff" by simp
    with Some True r show ?thesis
      by (cases r) (simp_all add: extractArchive_def)
  qed
qed

lemma extractFile_escapes:
  "escapes d x \<Longrightarrow> extractFile ok d x eff = (Inl (InvalidFilePath (file_Name x)), eff)"
  by (simp add: extractFile_def escapes_def Let_def)

lemma extractFile_stays:
  "\<not> escapes d x \<Longrightarrow>
   fst (extractFile ok d x eff) = Inr () \<or>
   (\<exists>op. \<not> ok op \<and> fst (extractFile ok d x eff) = Inl (IOFailure op))"
  by (auto simp add: extractFile_def escapes_def Let_def)

lemma extractFiles_rejects:
  "find (escapes d) xs = Some f \<Longrightarrow>
   fst (extractFiles ok d xs eff) = Inl (InvalidFilePath (file_Name f)) \<or>
   (\<exists>op. \<not> ok op \<and> fst (extractFiles ok d xs eff) = Inl (IOFailure op))"
proof (induction xs arbitrary: eff)
  case Nil
  then show ?case by simp
next
  case (Cons x xs)
  show ?case
  proof (cases "escapes d x")
    case True
    with Cons.prems show ?thesis by (simp add: extractFile_escapes)
  next
    case False
    with Cons.prems have f: "find (escapes d) xs = Some f" by simp
    obtain r eff' where r: "extractFile ok d x eff = (r, eff')"
      by (cases "extractFile ok d x eff")
    from extractFile_stays [OF False, of ok eff] r
    have "r = Inr () \<or> (\<exists>op. \<not> ok op \<and> r = Inl (IOFailure op))" by simp
    then show ?thesis
    proof
      assume "r = Inr ()"
      with r Cons.IH [OF f, of eff'] show ?thesis by simp
    next
      assume "\<exists>op. \<not> ok op \<and> r = Inl (IOFailure op)"
      with r show ?thesis by auto
    qed
  qed
qed

lemma extractArchive_rejects:
  assumes "find (escapes (Join [Dir zipPath, ''upd_extract''])) xs = Some f"
  shows "fst (extractArchive ok (Some xs) zipPath) = Inl (InvalidFilePath (file_Name f)) \<or>
         (\<exists>op. \<not> ok op \<and>
            (fst (extractArchive ok (Some xs) zipPath) = Inl (IOFailure op) \<or>
             fst (extractArchive ok (Some xs) zipPath) = Inl ExtractDirFailed))"
proof (cases "ok (OpMkdirAll (Join [Dir zipPath, ''upd_extract'']))")
  case False
  then show ?thesis by (auto simp: extractArchive_def Let_def)
next
  case True
  let ?d = "Join [Dir zipPath, ''upd_extract'']"
  obtain r eff where r: "extractFiles ok ?d xs [DirCreated ?d] = (r, eff)"
    by (cases "extractFiles ok ?d xs [DirCreated ?d]")
  from extractFiles_rejects [OF assms, of ok "[DirCreated ?d]"] r
  have "r = Inl (InvalidFilePath (file_Name f)) \<or> (\<exists>op. \<not> ok op \<and> r = Inl (IOFailure op))"
    by simp
  with True r show ?thesis by (auto simp: extractArchive_def Let_def)
qed

text \<open>
  C5: when the archive has an entry whose output path \<open>Join [extractDir, name]\<close> does not
  begin with the extraction directory followed by a slash, \<open>extractArchive\<close> fails. The error
  is the invalid-path error naming the first such entry, unless an operation on the file
  system has failed before that entry is reached; when no operation fails it is the
  invalid-path error. An entry named \<open>../../etc/passwd\<close> is such an entry, wherever the
  archive lies. Whatever the archive, every file that the extraction creates or writes lies
  strictly inside the extraction directory: its path is the directory, a slash, and elements
  none of which is \<open>..\<close>.
\<close>

theorem extractArchive_path_traversal:
  assumes "g \<in> set xs" and "escapes (Join [Dir zipPath, ''upd_extract'']) g"
  shows "\<exists>f. find (escapes (Join [Dir zipPath, ''upd_extract''])) xs = Some f \<and>
           (fst (extractArchive ok (Some xs) zipPath) = Inl (InvalidFilePath (file_Name f)) \<or>
            (\<exists>op. \<not> ok op \<and>
               (fst (extractArchive ok (Some xs) zipPath) = Inl (IOFailure op) \<or>
                fst (extractArchive ok (Some xs) zipPath) = Inl ExtractDirFailed))) \<and>
           ((\<forall>op. ok op) \<longrightarrow>
              fst (extractArchive ok (Some xs) zipPath) = Inl (InvalidFilePath (file_Name f))) \<and>
           files_inside (Join [Dir zipPath, ''upd_extract''])
             (snd (extractArchive ok (Some xs) zipPath)) \<and>
           escapes (Join [Dir zipPath, ''upd_extract'']) passwd_entry"
proof -
  let ?d = "Join [Dir zipPath, ''upd_extract'']"
  from assms obtain f where f: "find (escapes ?d) xs = Some f"
    by (cases "find (escapes ?d) xs") (auto simp: find_None_iff)
  have "escapes ?d passwd_entry"
    using passwd_escapes [OF Dir_nonempty, of zipPath] by (simp add: escapes_def passwd_entry_def)
  with extractArchive_rejects [OF f, of ok] extractArchive_files_inside [of zipPath ok "Some xs"] f
  show ?thesis by blast
qed

theorem extractArchive_path_traversal_witness:
  "passwd_entry \<in> set [meta_entry, passwd_entry] \<and>
   escapes (Join [Dir ''temp/upd_1.zip'', ''upd_extract'']) passwd_entry \<and>
   Join [Join [Dir ''temp/upd_1.zip'', ''upd_extract''], file_Name passwd_entry] = ''etc/passwd'' \<and>
   extractArchive all_ok (Some [meta_entry, passwd_entry]) ''temp/upd_1.zip'' =
     (Inl (InvalidFilePath ''../../etc/passwd''),
      [DirCreated ''temp/upd_extract'', DirCreated ''temp/upd_extract'',
       FileCreated ''temp/upd_extract/meta.xml'', DataWritten ''temp/upd_extract/meta.xml'' ''m''])"
proof -
  have a: "passwd_entry \<in> set [meta_entry, passwd_entry]" by simp
  have b: "escapes (Join [Dir ''temp/upd_1.zip'', ''upd_extract'']) passwd_entry" by code_simp
  have c: "Join [Join [Dir ''temp/upd_1.zip'', ''upd_extract''], file_Name passwd_entry] =
      ''etc/passwd''"
    by code_simp
  have d: "extractArchive all_ok (Some [meta_entry, passwd_entry]) ''temp/upd_1.zip'' =
     (Inl (InvalidFilePath ''../../etc/passwd''),
      [DirCreated ''temp/upd_extract'', DirCreated ''temp/upd_extract'',
       FileCreated ''temp/upd_extract/meta.xml'', DataWritten ''temp/upd_extract/meta.xml'' ''m''])"
    by code_simp
  from extractArchive_path_traversal [OF a b, of all_ok] a b c d show ?thesis by simp
qed

section \<open>Properties of the client\<close>

subsection \<open>Requests made\<close>

lemma makeRequest_eq:
  "makeRequest api method endpoint data params log0 =
     (server api log0
        \<lparr>req_method = method, req_endpoint = endpoint, req_data = data, req_params = params\<rparr>,
      log0 @ [\<lparr>req_method = method, req_endpoint = endpoint, req_data = data,
               req_params = params\<rparr>])"
  by (simp add: makeRequest_def Let_def)

lemma makeRequest_GET_creations [simp]:
  "creations (snd (makeRequest api GET endpoint data params log0)) = creations log0"
  by (simp add: makeRequest_eq creations_def isCreation_def)

lemma makeRequest_log:
  "snd (makeRequest api method endpoint data params log0) =
   log0 @ [\<lparr>req_method = method, req_endpoint = endpoint, req_data = data, req_params = params\<rparr>]"
  by (simp add: makeRequest_eq)

lemma counterpartyData_type:
  "idx (counterpartyData buyer) ''companyType'' =
     JStr (if length (org_INN buyer) = 12 then ''individual'' else ''legal'')"
  by (simp add: counterpartyData_def setKey_def idx_def Let_def)

lemma counterpartyData_kpp:
  "map_of (counterpartyData buyer) ''kpp'' =
     (if length (org_INN buyer) \<noteq> 12 \<and> org_KPP buyer \<noteq> [] then Some (JStr (org_KPP buyer)) else None)"
  by (simp add: counterpartyData_def setKey_def Let_def)

lemma counterpartyData_name_inn:
  "idx (counterpartyData buyer) ''name'' = JStr (org_Name buyer) \<and>
   idx (counterpartyData buyer) ''inn'' = JStr (org_INN buyer)"
  by (simp add: counterpartyData_def setKey_def idx_def Let_def)

lemma getOrCreateCounterparty_existing:
  "server api log0 (counterpartySearchRequest buyer) = Some resp \<Longrightarrow>
   firstRow resp = Some (JObj cp) \<Longrightarrow>
   getOrCreateCounterparty api buyer log0 = (Ok cp, log0 @ [counterpartySearchRequest buyer])"
  by (simp add: getOrCreateCounterparty_def makeRequest_eq counterpartySearchRequest_def)

lemma getOrCreateCounterparty_absent:
  "server api log0 (counterpartySearchRequest buyer) = Some resp \<Longrightarrow>
   firstRow resp = None \<Longrightarrow>
   snd (getOrCreateCounterparty api buyer log0) =
     log0 @ [counterpartySearchRequest buyer, counterpartyCreateRequest buyer]"
  by (simp add: getOrCreateCounterparty_def makeRequest_eq counterpartySearchRequest_def
      counterpartyCreateRequest_def split: option.splits)

lemma getOrCreateCounterparty_created:
  "server api log0 (counterpartySearchRequest buyer) = Some resp \<Longrightarrow>
   firstRow resp = None \<Longrightarrow>
   server api (log0 @ [counterpartySearchRequest buyer]) (counterpartyCreateRequest buyer) = Some resp2 \<Longrightarrow>
   StatusCode resp2 = 200 \<Longrightarrow> decodeObject resp2 = Some result \<Longrightarrow>
   fst (getOrCreateCounterparty api buyer log0) = Ok result"
  by (simp add: getOrCreateCounterparty_def makeRequest_eq counterpartySearchRequest_def
      counterpartyCreateRequest_def)

lemma findProductByArticle_log:
  "snd (findProductByArticle api article log0) = log0 @ [productByArticleRequest article]"
  by (simp add: findProductByArticle_def makeRequest_eq productByArticleRequest_def
      split: option.splits json.splits)

lemma findProduct_log:
  "snd (findProduct api productName log0) = log0 @ [productByNameRequest productName]"
  by (simp add: findProduct_def makeRequest_eq productByNameRequest_def
      split: option.splits json.splits)

lemma resolveProduct_by_article:
  "item_Article item \<noteq> [] \<Longrightarrow>
   fst (findProductByArticle api (item_Article item) log0) = Ok (Some p) \<Longrightarrow>
   resolveProduct api item log0 = (Ok (Some p), log0 @ [productByArticleRequest (item_Article item)])"
  using findProductByArticle_log [of api "item_Article item" log0]
  by (cases "findProductByArticle api (item_Article item) log0")
     (simp add: resolveProduct_def andThen_def)

lemma resolveProduct_by_name:
  "item_Article item \<noteq> [] \<Longrightarrow>
   fst (findProductByArticle api (item_Article item) log0) = Ok None \<Longrightarrow>
   resolveProduct api item log0 =
     findProduct api (item_Name item) (log0 @ [productByArticleRequest (item_Article item)]) \<and>
   snd (resolveProduct api item log0) =
     log0 @ [productByArticleRequest (item_Article item), productByNameRequest (item_Name item)]"
  using findProductByArticle_log [of api "item_Article item" log0]
  by (cases "findProductByArticle api (item_Article item) log0")
     (simp add: resolveProduct_def andThen_def findProduct_log)

lemma resolveProduct_no_article:
  "item_Article item = [] \<Longrightarrow>
   resolveProduct api item log0 = findProduct api (item_Name item) log0 \<and>
   snd (resolveProduct api item log0) = log0 @ [productByNameRequest (item_Name item)]"
  by (simp add: resolveProduct_def andThen_def findProduct_log)


lemma creations_append [simp]: "creations (a @ b) = creations a @ creations b"
  by (simp add: creations_def)

lemma creations_Nil [simp]: "creations [] = []"
  by (simp add: creations_def)

lemma creations_Cons_GET [simp]: "req_method r = GET \<Longrightarrow> creations (r # rs) = creations rs"
  by (simp add: creations_def isCreation_def)

lemma creations_append_GET:
  "req_method r = GET \<Longrightarrow> creations (l @ [r]) = creations l"
  by (simp add: creations_def isCreation_def)

lemma andThen_creations:
  assumes "creations (snd m) = c"
      and "\<And>x l. creations l = c \<Longrightarrow> creations (snd (k x l)) = c"
  shows "creations (snd (andThen m k)) = c"
proof (cases m)
  case (Pair r l)
  with assms show ?thesis by (cases r) (simp_all add: andThen_def)
qed

lemma andThen_not_Ok:
  "(\<And>x. fst m \<noteq> Ok x) \<Longrightarrow> fst (andThen m k) \<noteq> Ok y"
  by (cases m; cases "fst m") (auto simp: andThen_def)

lemma findProduct_creations [simp]:
  "creations (snd (findProduct api productName log0)) = creations log0"
  by (simp add: findProduct_log creations_append_GET productByNameRequest_def)

lemma findProductByArticle_creations [simp]:
  "creations (snd (findProductByArticle api article log0)) = creations log0"
  by (simp add: findProductByArticle_log creations_append_GET productByArticleRequest_def)

lemma getAnyAvailableService_creations [simp]:
  "creations (snd (getAnyAvailableService api log0)) = creations log0"
  by (simp add: getAnyAvailableService_def makeRequest_eq creations_append_GET
      split: option.splits json.splits)

lemma resolveProduct_creations [simp]:
  "creations (snd (resolveProduct api item log0)) = creations log0"
  unfolding resolveProduct_def
  by (rule andThen_creations) simp_all

lemma findProduct_no_Err: "fst (findProduct api productName log0) \<noteq> Err e"
  by (simp add: findProduct_def makeRequest_eq split: option.splits json.splits)

lemma findProductByArticle_no_Err: "fst (findProductByArticle api article log0) \<noteq> Err e"
  by (simp add: findProductByArticle_def makeRequest_eq split: option.splits json.splits)

lemma resolveProduct_no_Err: "fst (resolveProduct api item log0) \<noteq> Err e"
proof (cases "item_Article item = []")
  case True
  then show ?thesis by (simp add: resolveProduct_def andThen_def findProduct_no_Err)
next
  case False
  obtain r l where r: "findProductByArticle api (item_Article item) log0 = (r, l)"
    by (cases "findProductByArticle api (item_Article item) log0")
  with findProductByArticle_no_Err [of api "item_Article item" log0] have "\<And>e. r \<noteq> Err e"
    by auto
  with False r show ?thesis
    by (cases r) (auto simp: resolveProduct_def andThen_def findProduct_no_Err)
qed

lemma positionsLoop_creations [simp]:
  "creations (snd (positionsLoop api ip items ps ms log0)) = creations log0"
proof (induction items arbitrary: ps ms log0)
  case Nil
  then show ?case by simp
next
  case (Cons item items)
  show ?case
    unfolding positionsLoop.simps
    by (rule andThen_creations [where m = "resolveProduct api item log0"])
       (simp_all add: Cons.IH split: option.splits)
qed

lemma positionsLoop_no_Err:
  "fst (positionsLoop api ip items ps ms log0) \<noteq> Err e"
proof (induction items arbitrary: ps ms log0)
  case Nil
  then show ?case by simp
next
  case (Cons item items)
  obtain r l where r: "resolveProduct api item log0 = (r, l)"
    by (cases "resolveProduct api item log0")
  with resolveProduct_no_Err [of api item log0] have "\<And>e. r \<noteq> Err e" by auto
  with r Cons.IH show ?case
    by (cases r) (auto simp: andThen_def split: option.splits)
qed

lemma positionsLoop_missing:
  "positionsLoop api ip items ps ms log0 = (Ok (ps', ms'), l') \<Longrightarrow>
   \<exists>extra. ms' = ms @ extra \<and> set extra \<subseteq> missingItem ` set items"
proof (induction items arbitrary: ps ms log0)
  case Nil
  then show ?case by simp
next
  case (Cons item items)
  obtain r l where r: "resolveProduct api item log0 = (r, l)"
    by (cases "resolveProduct api item log0")
  show ?case
  proof (cases r)
    case Panic
    with r Cons.prems show ?thesis by (simp add: andThen_def)
  next
    case (Err e)
    with r Cons.prems show ?thesis by (simp add: andThen_def)
  next
    case (Ok product)
    show ?thesis
    proof (cases product)
      case None
      with Ok r Cons.prems
      have "positionsLoop api ip items ps (ms @ [missingItem item]) l = (Ok (ps', ms'), l')"
        by (simp add: andThen_def)
      from Cons.IH [OF this] show ?thesis by auto
    next
      case (Some p)
      with Ok r Cons.prems
      have "positionsLoop api ip items (ps @ [makePosition ip item p]) ms l = (Ok (ps', ms'), l')"
        by (simp add: andThen_def)
      from Cons.IH [OF this] show ?thesis by auto
    qed
  qed
qed

lemma positionsLoop_unresolved:
  assumes "item \<in> set items" and "\<forall>l. fst (resolveProduct api item l) = Ok None"
      and "positionsLoop api ip items ps ms log0 = (Ok (ps', ms'), l')"
  shows "missingItem item \<in> set ms'"
  using assms
proof (induction items arbitrary: ps ms log0)
  case Nil
  then show ?case by simp
next
  case (Cons x items)
  obtain r l where r: "resolveProduct api x log0 = (r, l)"
    by (cases "resolveProduct api x log0")
  show ?case
  proof (cases r)
    case Panic
    with r Cons.prems show ?thesis by (simp add: andThen_def)
  next
    case (Err e)
    with r Cons.prems show ?thesis by (simp add: andThen_def)
  next
    case (Ok product)
    show ?thesis
    proof (cases product)
      case None
      with Ok r Cons.prems
      have step: "positionsLoop api ip items ps (ms @ [missingItem x]) l = (Ok (ps', ms'), l')"
        by (simp add: andThen_def)
      show ?thesis
      proof (cases "item = x")
        case True
        from positionsLoop_missing [OF step] True show ?thesis by auto
      next
        case False
        with Cons.prems have "item \<in> set items" by simp
        from Cons.IH [OF this Cons.prems(2) step] show ?thesis .
      qed
    next
      case (Some p)
      with Ok r Cons.prems
      have step: "positionsLoop api ip items (ps @ [makePosition ip x p]) ms l = (Ok (ps', ms'), l')"
        by (simp add: andThen_def)
      from Some Ok r Cons.prems(2) have "item \<noteq> x"
        by (metis fst_conv option.distinct(1) result.inject)
      with Cons.prems have "item \<in> set items" by simp
      from Cons.IH [OF this Cons.prems(2) step] show ?thesis .
    qed
  qed
qed


lemma parseInvoicePositions_creations [simp]:
  "creations (snd (parseInvoicePositions api pd ps log0)) = creations log0"
  by (simp add: parseInvoicePositions_def makeRequest_eq creations_append_GET
      split: option.splits json.splits)

lemma getInvoicePositions_creations [simp]:
  "creations (snd (getInvoicePositions api ci log0)) = creations log0"
  by (simp add: getInvoicePositions_def makeRequest_eq creations_append_GET
      split: option.splits)

lemma getInvoicePositions_no_Err: "fst (getInvoicePositions api ci log0) \<noteq> Err e"
  by (simp add: getInvoicePositions_def parseInvoicePositions_def makeRequest_eq
      split: option.splits json.splits)

lemma service_position_creations:
  "creations l2 = c \<Longrightarrow>
   creations (snd (andThen (getAnyAvailableService api l2)
     (\<lambda>service log3. case service of None \<Rightarrow> (Err NoServiceAvailable, log3)
        | Some s \<Rightarrow> (Ok (f s), log3)))) = c"
  by (rule andThen_creations) (simp_all split: option.splits)

lemma createPositionsFromUPD_creations [simp]:
  "creations (snd (createPositionsFromUPD api content ci log0)) = creations log0"
  unfolding createPositionsFromUPD_def
proof (rule andThen_creations)
  show "creations (snd (case ci of None \<Rightarrow> (Ok Map.empty, log0)
                        | Some invoice \<Rightarrow> getInvoicePositions api invoice log0)) = creations log0"
    by (simp split: option.splits)
next
  fix ip :: prices and l :: "request list"
  assume l: "creations l = creations log0"
  show "creations (snd (andThen (positionsLoop api ip (Items content) [] [] l)
          (\<lambda>(positions, missingItems) log2.
             if missingItems \<noteq> [] then (Err (ProductsNotFound missingItems), log2)
             else if positions = [] then
               (let totalPriceKopecks =
                      (if GreaterThan (TotalWithVAT content) Zero then
                         IntPart (Mul (TotalWithVAT content) (NewFromInt 100))
                       else 1000 * 100)
                in andThen (getAnyAvailableService api log2)
                     (\<lambda>service log3.
                        case service of
                          None \<Rightarrow> (Err NoServiceAvailable, log3)
                        | Some s \<Rightarrow>
                            (Ok [JObj [(''quantity'', JNum 1),
                                       (''price'', JNum (of_int totalPriceKopecks)),
                                       (''assortment'', JObj [(''meta'', idx s ''meta'')]),
                                       (''vat'', JNum 18)]],
                             log3)))
             else (Ok positions, log2)))) = creations log0"
  proof (rule andThen_creations)
    show "creations (snd (positionsLoop api ip (Items content) [] [] l)) = creations log0"
      using l by simp
  next
    fix pm :: "json list \<times> string list" and l2 :: "request list"
    assume l2: "creations l2 = creations log0"
    obtain ps ms where pm: "pm = (ps, ms)" by (cases pm)
    show "creations (snd ((case pm of (positions, missingItems) \<Rightarrow> \<lambda>log2.
             if missingItems \<noteq> [] then (Err (ProductsNotFound missingItems), log2)
             else if positions = [] then
               (let totalPriceKopecks =
                      (if GreaterThan (TotalWithVAT content) Zero then
                         IntPart (Mul (TotalWithVAT content) (NewFromInt 100))
                       else 1000 * 100)
                in andThen (getAnyAvailableService api log2)
                     (\<lambda>service log3.
                        case service of
                          None \<Rightarrow> (Err NoServiceAvailable, log3)
                        | Some s \<Rightarrow>
                            (Ok [JObj [(''quantity'', JNum 1),
                                       (''price'', JNum (of_int totalPriceKopecks)),
                                       (''assortment'', JObj [(''meta'', idx s ''meta'')]),
                                       (''vat'', JNum 18)]],
                             log3)))
             else (Ok positions, log2)) l2)) = creations log0"
      using l2 by (simp add: pm Let_def service_position_creations)
  qed
qed

lemma searchInvoice_creations [simp]:
  "creations (snd (searchInvoice api patterns log0)) = creations log0"
proof (induction patterns arbitrary: log0)
  case Nil
  then show ?case by simp
next
  case (Cons pattern patterns)
  then show ?case
    by (simp add: makeRequest_eq creations_append_GET split: option.splits json.splits)
qed

lemma findCustomerInvoice_creations [simp]:
  "creations (snd (findCustomerInvoice api n log0)) = creations log0"
  by (simp add: findCustomerInvoice_def del: searchInvoice.simps)

lemma getStoreFromInvoice_creations [simp]:
  "creations (snd (getStoreFromInvoice api ci log0)) = creations log0"
  by (simp add: getStoreFromInvoice_def makeRequest_eq creations_append_GET Let_def
      split: option.splits json.splits)

lemma findOrganizationByINN_creations [simp]:
  "creations (snd (findOrganizationByINN api inn log0)) = creations log0"
  by (simp add: findOrganizationByINN_def makeRequest_eq creations_append_GET
      split: option.splits json.splits)

lemma getOrCreateCounterparty_creations [simp]:
  "creations (snd (getOrCreateCounterparty api buyer log0)) = creations log0"
  by (simp add: getOrCreateCounterparty_def makeRequest_eq creations_def isCreation_def
      split: option.splits json.splits)

lemma createPositionsFromUPD_unresolved:
  assumes "item \<in> set (Items content)" and "\<forall>l. fst (resolveProduct api item l) = Ok None"
  shows "fst (createPositionsFromUPD api content ci log0) = Panic \<or>
         (\<exists>ms. fst (createPositionsFromUPD api content ci log0) = Err (ProductsNotFound ms) \<and>
               missingItem item \<in> set ms \<and> set ms \<subseteq> missingItem ` set (Items content))"
proof -
  define m where "m = (case ci of Some invoice \<Rightarrow> getInvoicePositions api invoice log0
                       | None \<Rightarrow> (Ok Map.empty, log0))"
  obtain r l where r: "m = (r, l)" by (cases m)
  have noErr: "\<And>e. r \<noteq> Err e"
  proof (cases ci)
    case None
    with r show "\<And>e. r \<noteq> Err e" by (auto simp: m_def)
  next
    case (Some invoice)
    with r have "fst (getInvoicePositions api invoice log0) = r" by (simp add: m_def)
    with getInvoicePositions_no_Err show "\<And>e. r \<noteq> Err e" by blast
  qed
  show ?thesis
  proof (cases r)
    case Panic
    with r show ?thesis by (simp add: createPositionsFromUPD_def andThen_def m_def [symmetric])
  next
    case (Err e)
    with noErr [of e] show ?thesis by simp
  next
    case (Ok ip)
    obtain r2 l2 where r2: "positionsLoop api ip (Items content) [] [] l = (r2, l2)"
      by (cases "positionsLoop api ip (Items content) [] [] l")
    show ?thesis
    proof (cases r2)
      case Panic
      with r Ok r2 show ?thesis
        by (simp add: createPositionsFromUPD_def andThen_def m_def [symmetric])
    next
      case (Err e)
      with r2 positionsLoop_no_Err [of api ip "Items content" "[]" "[]" l e] show ?thesis by simp
    next
      case inner: (Ok pm)
      obtain ps ms where pm: "pm = (ps, ms)" by (cases pm)
      from r2 inner pm have loop: "positionsLoop api ip (Items content) [] [] l = (Ok (ps, ms), l2)"
        by simp
      from positionsLoop_unresolved [OF assms loop] have mem: "missingItem item \<in> set ms" .
      from positionsLoop_missing [OF loop] have sub: "set ms \<subseteq> missingItem ` set (Items content)"
        by auto
      from mem have "ms \<noteq> []" by auto
      with r Ok loop have "fst (createPositionsFromUPD api content ci log0) = Err (ProductsNotFound ms)"
        by (simp add: createPositionsFromUPD_def andThen_def m_def [symmetric])
      with mem sub show ?thesis by blast
    qed
  qed
qed

lemma createDemand_unresolved:
  assumes "item \<in> set (Items (Content doc))" and "\<forall>l. fst (resolveProduct api item l) = Ok None"
  shows "fst (createDemand api doc org cp log0) \<noteq> Ok r \<and>
         creations (snd (createDemand api doc org cp log0)) = creations log0"
proof -
  let ?c = "Content doc"
  obtain r1 l1 where r1: "findCustomerInvoice api (RequisiteNumber ?c) log0 = (r1, l1)"
    by (cases "findCustomerInvoice api (RequisiteNumber ?c) log0")
  have c1: "creations l1 = creations log0"
    using findCustomerInvoice_creations [of api "RequisiteNumber ?c" log0] r1 by simp
  show ?thesis
  proof (cases r1)
    case Panic
    with r1 c1 show ?thesis by (simp add: createDemand_def)
  next
    case (Err e)
    with r1 c1 show ?thesis by (simp add: createDemand_def)
  next
    case (Ok ci)
    obtain r2 l2 where r2: "getStoreFromInvoice api (Some ci) l1 = (r2, l2)"
      by (cases "getStoreFromInvoice api (Some ci) l1")
    have c2: "creations l2 = creations log0"
      using getStoreFromInvoice_creations [of api "Some ci" l1] r2 c1 by simp
    show ?thesis
    proof (cases r2)
      case Panic
      with r1 Ok r2 c2 show ?thesis by (simp add: createDemand_def)
    next
      case (Err e)
      with r1 Ok r2 c2 show ?thesis by (simp add: createDemand_def)
    next
      case store: (Ok st)
      obtain r3 l3 where r3: "createPositionsFromUPD api ?c (Some ci) l2 = (r3, l3)"
        by (cases "createPositionsFromUPD api ?c (Some ci) l2")
      have c3: "creations l3 = creations log0"
        using createPositionsFromUPD_creations [of api ?c "Some ci" l2] r3 c2 by simp
      from createPositionsFromUPD_unresolved [OF assms, of "Some ci" l2] r3
      have "r3 = Panic \<or> (\<exists>ms. r3 = Err (ProductsNotFound ms))" by auto
      with r1 Ok r2 store r3 c3 show ?thesis
        by (auto simp: createDemand_def andThen_def)
    qed
  qed
qed

lemma CreateInvoiceFromUPD_unresolved:
  assumes "item \<in> set (Items (Content doc))" and "\<forall>l. fst (resolveProduct api item l) = Ok None"
  shows "fst (CreateInvoiceFromUPD api doc log0) \<noteq> Ok r \<and>
         creations (snd (CreateInvoiceFromUPD api doc log0)) = creations log0"
proof -
  let ?inn = "org_INN (Seller (Content doc))"
  obtain r1 l1 where r1: "findOrganizationByINN api ?inn log0 = (r1, l1)"
    by (cases "findOrganizationByINN api ?inn log0")
  have c1: "creations l1 = creations log0"
    using findOrganizationByINN_creations [of api ?inn log0] r1 by simp
  show ?thesis
  proof (cases r1)
    case Panic
    with r1 c1 show ?thesis by (simp add: CreateInvoiceFromUPD_def)
  next
    case (Err e)
    with r1 c1 show ?thesis by (simp add: CreateInvoiceFromUPD_def)
  next
    case (Ok org)
    obtain r2 l2 where r2: "getOrCreateCounterparty api (Buyer (Content doc)) l1 = (r2, l2)"
      by (cases "getOrCreateCounterparty api (Buyer (Content doc)) l1")
    have c2: "creations l2 = creations log0"
      using getOrCreateCounterparty_creations [of api "Buyer (Content doc)" l1] r2 c1 by simp
    show ?thesis
    proof (cases r2)
      case Panic
      with r1 Ok r2 c2 show ?thesis by (simp add: CreateInvoiceFromUPD_def andThen_def)
    next
      case (Err e)
      with r1 Ok r2 c2 show ?thesis by (simp add: CreateInvoiceFromUPD_def andThen_def)
    next
      case buyer: (Ok cp)
      obtain r3 l3 where r3: "createDemand api doc org cp l2 = (r3, l3)"
        by (cases "createDemand api doc org cp l2")
      from createDemand_unresolved [OF assms, of org cp l2] r3 c2
      have "(\<forall>x. r3 \<noteq> Ok x) \<and> creations l3 = creations log0" by auto
      with r1 Ok r2 buyer r3 show ?thesis
        by (cases r3) (auto simp: CreateInvoiceFromUPD_def andThen_def)
    qed
  qed
qed

subsection \<open>The buyer counterparty\<close>

text \<open>
  C7: let the search for a counterparty with the buyer's tax id be answered. When the answer
  holds no row, the client sends the creation request, whose payload has the buyer's name and
  tax id, the company type \<open>individual\<close> exactly when the tax id has length 12 and
  \<open>legal\<close> otherwise, and the key \<open>kpp\<close> exactly when the type is legal and the
  registration code is not empty. When the answer holds a row, that counterparty is returned
  and no creation request is sent.
\<close>

theorem getOrCreateCounterparty_entity_type:
  assumes "server api log0 (counterpartySearchRequest buyer) = Some resp"
  shows "(firstRow resp = None \<longrightarrow>
            snd (getOrCreateCounterparty api buyer log0) =
              log0 @ [counterpartySearchRequest buyer, counterpartyCreateRequest buyer] \<and>
            req_data (counterpartyCreateRequest buyer) = JObj (counterpartyData buyer)) \<and>
         idx (counterpartyData buyer) ''companyType'' =
           JStr (if length (org_INN buyer) = 12 then ''individual'' else ''legal'') \<and>
         map_of (counterpartyData buyer) ''kpp'' =
           (if length (org_INN buyer) \<noteq> 12 \<and> org_KPP buyer \<noteq> []
            then Some (JStr (org_KPP buyer)) else None) \<and>
         idx (counterpartyData buyer) ''name'' = JStr (org_Name buyer) \<and>
         idx (counterpartyData buyer) ''inn'' = JStr (org_INN buyer) \<and>
         (\<forall>cp. firstRow resp = Some (JObj cp) \<longrightarrow>
            getOrCreateCounterparty api buyer log0 =
              (Ok cp, log0 @ [counterpartySearchRequest buyer]))"
  using getOrCreateCounterparty_absent [OF assms] getOrCreateCounterparty_existing [OF assms]
    counterpartyData_type [of buyer] counterpartyData_kpp [of buyer]
    counterpartyData_name_inn [of buyer]
  by (simp add: counterpartyCreateRequest_def)

theorem getOrCreateCounterparty_entity_type_witness:
  "getOrCreateCounterparty api0 (org0 ''IP Ivanov'' ''500000000000'' ''770101001'') [] =
     (Ok newCounterparty,
      [filterRequest ''/entity/counterparty'' ''inn=500000000000'',
       \<lparr>req_method = POST, req_endpoint = ''/entity/counterparty'',
        req_data = JObj [(''name'', JStr ''IP Ivanov''), (''inn'', JStr ''500000000000''),
                         (''companyType'', JStr ''individual'')],
        req_params = []\<rparr>]) \<and>
   getOrCreateCounterparty api0 (org0 ''LLC'' ''7711111111'' ''770101001'') [] =
     (Ok newCounterparty,
      [filterRequest ''/entity/counterparty'' ''inn=7711111111'',
       \<lparr>req_method = POST, req_endpoint = ''/entity/counterparty'',
        req_data = JObj [(''name'', JStr ''LLC''), (''inn'', JStr ''7711111111''),
                         (''companyType'', JStr ''legal''), (''kpp'', JStr ''770101001'')],
        req_params = []\<rparr>]) \<and>
   getOrCreateCounterparty api0 (org0 ''Known'' ''7722222222'' ''772201001'') [] =
     (Ok knownCounterparty, [filterRequest ''/entity/counterparty'' ''inn=7722222222''])"
proof -
  let ?b1 = "org0 ''IP Ivanov'' ''500000000000'' ''770101001''"
  let ?b3 = "org0 ''Known'' ''7722222222'' ''772201001''"
  have s1: "server api0 [] (counterpartySearchRequest ?b1) = Some (rowsBody [])" by code_simp
  have f1: "firstRow (rowsBody []) = None" by code_simp
  have s3: "server api0 [] (counterpartySearchRequest ?b3) = Some (rowsBody [JObj knownCounterparty])"
    by code_simp
  have f3: "firstRow (rowsBody [JObj knownCounterparty]) = Some (JObj knownCounterparty)"
    by code_simp
  have e1: "getOrCreateCounterparty api0 ?b1 [] =
     (Ok newCounterparty,
      [filterRequest ''/entity/counterparty'' ''inn=500000000000'',
       \<lparr>req_method = POST, req_endpoint = ''/entity/counterparty'',
        req_data = JObj [(''name'', JStr ''IP Ivanov''), (''inn'', JStr ''500000000000''),
                         (''companyType'', JStr ''individual'')],
        req_params = []\<rparr>])"
    by code_simp
  have e2: "getOrCreateCounterparty api0 (org0 ''LLC'' ''7711111111'' ''770101001'') [] =
     (Ok newCounterparty,
      [filterRequest ''/entity/counterparty'' ''inn=7711111111'',
       \<lparr>req_method = POST, req_endpoint = ''/entity/counterparty'',
        req_data = JObj [(''name'', JStr ''LLC''), (''inn'', JStr ''7711111111''),
                         (''companyType'', JStr ''legal''), (''kpp'', JStr ''770101001'')],
        req_params = []\<rparr>])"
    by code_simp
  have c3: "counterpartySearchRequest ?b3 = filterRequest ''/entity/counterparty'' ''inn=7722222222''"
    by code_simp
  from getOrCreateCounterparty_entity_type [OF s3] f3 c3
  have e3: "getOrCreateCounterparty api0 ?b3 [] =
     (Ok knownCounterparty, [filterRequest ''/entity/counterparty'' ''inn=7722222222''])"
    by simp
  from getOrCreateCounterparty_entity_type [OF s1] f1 e1 e2 e3 show ?thesis by simp
qed

subsection \<open>Product resolution\<close>

text \<open>
  C6: for an item with a catalog code the first request is the lookup by that code; when it
  yields a product, this product is the result and no lookup by name is made; when it yields
  none, the lookup by name follows and decides. An item without a code has no code to look
  up, and the lookup by name decides.
\<close>

theorem resolveProduct_article_first:
  "(item_Article item \<noteq> [] \<longrightarrow>
      (\<forall>p. fst (findProductByArticle api (item_Article item) log0) = Ok (Some p) \<longrightarrow>
         resolveProduct api item log0 =
           (Ok (Some p), log0 @ [productByArticleRequest (item_Article item)])) \<and>
      (fst (findProductByArticle api (item_Article item) log0) = Ok None \<longrightarrow>
         resolveProduct api item log0 =
           findProduct api (item_Name item)
             (log0 @ [productByArticleRequest (item_Article item)]) \<and>
         snd (resolveProduct api item log0) =
           log0 @ [productByArticleRequest (item_Article item),
                   productByNameRequest (item_Name item)])) \<and>
   (item_Article item = [] \<longrightarrow>
      resolveProduct api item log0 = findProduct api (item_Name item) log0 \<and>
      snd (resolveProduct api item log0) = log0 @ [productByNameRequest (item_Name item)])"
  using resolveProduct_by_article [of item api log0] resolveProduct_by_name [of item api log0]
    resolveProduct_no_article [of item api log0]
  by blast

theorem resolveProduct_article_first_witness:
  "fst (findProduct api0 ''Widget'' []) = Ok (Some widget) \<and>
   resolveProduct api0 (lineItem ''Widget'' ''A1'' ''99.00'') [] =
     (Ok (Some gadget), [filterRequest ''/entity/product'' ''article=A1'']) \<and>
   resolveProduct api0 (lineItem ''Widget'' ''Z9'' ''99.00'') [] =
     (Ok (Some widget),
      [filterRequest ''/entity/product'' ''article=Z9'',
       filterRequest ''/entity/product'' ''name=Widget'']) \<and>
   resolveProduct api0 (lineItem ''Widget'' [] ''99.00'') [] =
     (Ok (Some widget), [filterRequest ''/entity/product'' ''name=Widget''])"
proof -
  let ?i1 = "lineItem ''Widget'' ''A1'' ''99.00''"
  have a: "item_Article ?i1 \<noteq> []" by code_simp
  have b: "fst (findProductByArticle api0 (item_Article ?i1) []) = Ok (Some gadget)" by code_simp
  have c: "productByArticleRequest (item_Article ?i1) = filterRequest ''/entity/product'' ''article=A1''"
    by code_simp
  have d: "fst (findProduct api0 ''Widget'' []) = Ok (Some widget)" by code_simp
  have e: "resolveProduct api0 (lineItem ''Widget'' ''Z9'' ''99.00'') [] =
     (Ok (Some widget),
      [filterRequest ''/entity/product'' ''article=Z9'',
       filterRequest ''/entity/product'' ''name=Widget''])"
    by code_simp
  have f: "resolveProduct api0 (lineItem ''Widget'' [] ''99.00'') [] =
     (Ok (Some widget), [filterRequest ''/entity/product'' ''name=Widget''])"
    by code_simp
  from resolveProduct_article_first [of ?i1 api0 "[]"] a b c
  have "resolveProduct api0 ?i1 [] = (Ok (Some gadget), [filterRequest ''/entity/product'' ''article=A1''])"
    by simp
  with d e f show ?thesis by simp
qed

subsection \<open>The price of a position\<close>

text \<open>What \<open>positionPrice\<close> computes, case by case.\<close>

lemma positionPrice_cases:
  "positionPrice invoicePositions item =
     (let own = IntPart (Mul (item_Price item) (NewFromInt 100));
          byArticle =
            (if item_Article item = [] then None
             else (case invoicePositions (''article:'' @ item_Article item) of
                     Some p \<Rightarrow> if 0 < p then Some p else None
                   | None \<Rightarrow> None));
          byName =
            (case invoicePositions (''name:'' @ item_Name item) of
               Some q \<Rightarrow> if 0 < q then Some q else None
             | None \<Rightarrow> None)
      in case byArticle of
           Some p \<Rightarrow> if p = own then (case byName of Some q \<Rightarrow> q | None \<Rightarrow> p) else p
         | None \<Rightarrow> (case byName of Some q \<Rightarrow> q | None \<Rightarrow> own))"
  by (simp add: positionPrice_def Let_def split: option.splits)

text \<open>The example of a code price of 150.00 against a document price of 99.00.\<close>

lemma positionPrice_spec_example:
  "positionPrice
     (parsePositions [JObj [(''assortment'', JObj gadget), (''price'', JNum 15000)]] Map.empty)
     (lineItem ''Gadget'' ''A1'' ''99.00'') = 15000"
  by code_simp

text \<open>
  C3: the precedence fails on the following input. The source invoice has a position of the
  product with code \<open>A1\<close> priced 9900 and a position of the product named
  \<open>Widget\<close> priced 5000; the line item has the code \<open>A1\<close>, the name
  \<open>Widget\<close> and the unit price 99.00. The price recorded under the code equals the
  item's own price in kopecks, so the test that follows takes it for "not found by article"
  and the price recorded under the name, 5000, becomes the price of the position.
\<close>

theorem positionPrice_name_overrides_article:
  "parsePositions sourcePositions Map.empty ''article:A1'' = Some 9900 \<and>
   parsePositions sourcePositions Map.empty ''name:Widget'' = Some 5000 \<and>
   item_Article (lineItem ''Widget'' ''A1'' ''99.00'') = ''A1'' \<and>
   IntPart (Mul (item_Price (lineItem ''Widget'' ''A1'' ''99.00'')) (NewFromInt 100)) = 9900 \<and>
   positionPrice (parsePositions sourcePositions Map.empty) (lineItem ''Widget'' ''A1'' ''99.00'') = 5000 \<and>
   fst (createPositionsFromUPD api0 (Content (doc0 [lineItem ''Widget'' ''A1'' ''99.00'']))
          (Some sourceInvoice) []) =
     Ok [JObj [(''quantity'', JNum 2), (''price'', JNum 5000),
               (''assortment'', JObj [metaOf ''/entity/product/p1'']), (''vat'', JNum 20)]]"
  by code_simp

subsection \<open>Items that resolve to no product\<close>

text \<open>
  The first assembly, in \<open>createDemand\<close>. Let a line item of the document resolve to no
  product at every lookup, whatever the requests made before, by its code and by its name.
  Then the assembly of the positions returns the error \<open>ProductsNotFound\<close>, whose list names
  this item (and so every such item) by its name followed by its code, or by "not specified"
  when it has no code, and names items of the document only; the only other outcome is a panic
  on a malformed answer. Neither \<open>createDemand\<close> nor \<open>CreateInvoiceFromUPD\<close> returns a
  result, and neither sends a request that creates a shipment or an invoice.
\<close>

theorem unresolved_item_aborts:
  assumes "item \<in> set (Items (Content doc))"
      and "\<forall>l. fst (resolveProduct api item l) = Ok None"
  shows "(fst (createPositionsFromUPD api (Content doc) ci log0) = Panic \<or>
          (\<exists>ms. fst (createPositionsFromUPD api (Content doc) ci log0) = Err (ProductsNotFound ms) \<and>
                missingItem item \<in> set ms \<and>
                set ms \<subseteq> missingItem ` set (Items (Content doc)))) \<and>
         missingItem item =
           item_Name item @ '' ('' @ artikul @ '': '' @
           (if item_Article item = [] then ne_ukazan_lower else item_Article item) @ '')'' \<and>
         (\<forall>r. fst (createDemand api doc org cp log0) \<noteq> Ok r) \<and>
         creations (snd (createDemand api doc org cp log0)) = creations log0 \<and>
         (\<forall>r. fst (CreateInvoiceFromUPD api doc log0) \<noteq> Ok r) \<and>
         creations (snd (CreateInvoiceFromUPD api doc log0)) = creations log0"
  using createPositionsFromUPD_unresolved [OF assms, of ci log0]
    createDemand_unresolved [OF assms, of org cp log0]
    CreateInvoiceFromUPD_unresolved [OF assms, of log0]
  by (simp add: missingItem_def)

theorem unresolved_item_aborts_witness:
  "CreateInvoiceFromUPD api0
     (doc0 [lineItem ''Widget'' ''A1'' ''99.00'', lineItem ''Unknown'' ''Z9'' ''1'',
            lineItem ''Nameless'' [] ''1'']) [] =
     (Err (ProductsNotFound
            [''Unknown ('' @ artikul @ '': Z9)'', ''Nameless ('' @ artikul @ '': '' @ ne_ukazan_lower @ '')'']),
      [filterRequest ''/entity/organization'' ''inn=7700000000'',
       filterRequest ''/entity/counterparty'' ''inn=7722222222'',
       filterRequest ''/entity/invoiceout'' ''name=42'',
       getRequest ''/entity/invoiceout/1'',
       getRequest ''/entity/invoiceout/1?expand=positions.assortment'',
       filterRequest ''/entity/product'' ''article=A1'',
       filterRequest ''/entity/product'' ''article=Z9'',
       filterRequest ''/entity/product'' ''name=Unknown'',
       filterRequest ''/entity/product'' ''name=Nameless'']) \<and>
   creations (snd (CreateInvoiceFromUPD api0
     (doc0 [lineItem ''Widget'' ''A1'' ''99.00'', lineItem ''Unknown'' ''Z9'' ''1'',
            lineItem ''Nameless'' [] ''1'']) [])) = []"
proof -
  let ?u = "lineItem ''Unknown'' ''Z9'' ''1''"
  let ?d = "doc0 [lineItem ''Widget'' ''A1'' ''99.00'', ?u, lineItem ''Nameless'' [] ''1'']"
  have mem: "?u \<in> set (Items (Content ?d))" by (simp add: doc0_def NewUPDContent_def)
  have a1: "answer0 (productByArticleRequest ''Z9'') = Some (rowsBody [])" by code_simp
  have a2: "answer0 (productByNameRequest ''Unknown'') = Some (rowsBody [])" by code_simp
  have f: "firstRow (rowsBody []) = None" by code_simp
  have art: "item_Article ?u = ''Z9''" and nm: "item_Name ?u = ''Unknown''"
    by (simp_all add: lineItem_def)
  have un: "\<forall>l. fst (resolveProduct api0 ?u l) = Ok None"
    using a1 a2 f
    by (simp add: resolveProduct_def andThen_def findProductByArticle_def findProduct_def
        makeRequest_eq api0_def server0_def art nm productByArticleRequest_def
        productByNameRequest_def)
  have ev: "CreateInvoiceFromUPD api0 ?d [] =
     (Err (ProductsNotFound
            [''Unknown ('' @ artikul @ '': Z9)'', ''Nameless ('' @ artikul @ '': '' @ ne_ukazan_lower @ '')'']),
      [filterRequest ''/entity/organization'' ''inn=7700000000'',
       filterRequest ''/entity/counterparty'' ''inn=7722222222'',
       filterRequest ''/entity/invoiceout'' ''name=42'',
       getRequest ''/entity/invoiceout/1'',
       getRequest ''/entity/invoiceout/1?expand=positions.assortment'',
       filterRequest ''/entity/product'' ''article=A1'',
       filterRequest ''/entity/product'' ''article=Z9'',
       filterRequest ''/entity/product'' ''name=Unknown'',
       filterRequest ''/entity/product'' ''name=Nameless''])"
    by code_simp
  from unresolved_item_aborts [OF mem un, of None "[]" "[]" "[]"] ev
  show ?thesis by simp
qed

subsection \<open>The second assembly, for the invoice\<close>

text \<open>
  \<open>mapUPDToFactureOut\<close> assembles the positions a second time and drops the error: when the
  assembly fails, the payload of the invoice has \<open>positions\<close> \<open>null\<close>.
\<close>

lemma mapUPDToFactureOut_drops_error:
  assumes "findCustomerInvoice api (RequisiteNumber (Content doc)) log0 = (Ok invoice, log1)"
      and "createPositionsFromUPD api (Content doc) (Some invoice) log1 = (Err e, log2)"
  shows "\<exists>m. mapUPDToFactureOut api doc org cp demand log0 = (Ok m, log2) \<and>
             idx m ''positions'' = JNull"
  using assms by (simp add: mapUPDToFactureOut_def Let_def setKey_def idx_def)

text \<open>
  C2: the property fails for an item that resolves to no product in the second assembly only.
  The document \<open>doc1\<close> has the single item Gadget with the code A1. The external system
  \<open>server1\<close> finds the product by its code until the shipment is created and finds no
  product afterwards. The run makes the thirteen requests below: the shipment is created;
  then, by its code and by its name, the item resolves to no product, and the second assembly
  returns \<open>ProductsNotFound\<close> naming the item; yet the request that creates the invoice is
  sent, with \<open>positions\<close> \<open>null\<close>, and the run returns its result without an error.
\<close>

theorem CreateInvoiceFromUPD_invoice_after_failed_assembly:
  "map summary (snd (CreateInvoiceFromUPD api1 doc1 [])) =
     [(GET, ''/entity/organization'', [(''filter'', ''inn=7700000000'')]),
      (GET, ''/entity/counterparty'', [(''filter'', ''inn=7722222222'')]),
      (GET, ''/entity/invoiceout'', [(''filter'', ''name=42'')]),
      (GET, ''/entity/invoiceout/1'', []),
      (GET, ''/entity/invoiceout/1?expand=positions.assortment'', []),
      (GET, ''/entity/product'', [(''filter'', ''article=A1'')]),
      (POST, ''/entity/demand'', []),
      (GET, ''/entity/invoiceout'', [(''filter'', ''name=42'')]),
      (GET, ''/entity/invoiceout/1'', []),
      (GET, ''/entity/invoiceout/1?expand=positions.assortment'', []),
      (GET, ''/entity/product'', [(''filter'', ''article=A1'')]),
      (GET, ''/entity/product'', [(''filter'', ''name=Gadget'')]),
      (POST, ''/entity/factureout'', [])] \<and>
   fst (resolveProduct api1 (lineItem ''Gadget'' ''A1'' ''120.00'')
          (take 10 (snd (CreateInvoiceFromUPD api1 doc1 [])))) = Ok None \<and>
   fst (createPositionsFromUPD api1 (Content doc1) (Some sourceInvoice)
          (take 9 (snd (CreateInvoiceFromUPD api1 doc1 [])))) =
     Err (ProductsNotFound [''Gadget ('' @ artikul @ '': A1)'']) \<and>
   map summary (creations (snd (CreateInvoiceFromUPD api1 doc1 []))) =
     [(POST, ''/entity/demand'', []), (POST, ''/entity/factureout'', [])] \<and>
   map (payload ''positions'') (creations (snd (CreateInvoiceFromUPD api1 doc1 []))) =
     [JArr [JObj [(''quantity'', JNum 2), (''price'', JNum 9900),
                  (''assortment'', JObj [metaOf ''/entity/product/p1'']), (''vat'', JNum 20)]],
      JNull] \<and>
   fst (CreateInvoiceFromUPD api1 doc1 []) =
     Ok [(''factureout'', JObj createdInvoice), (''demand'', JObj createdDemand),
         (''success'', JBool True)]"
  by code_simp

end
